theory Spec2Isabelle
  imports Main "HOL-Library.Word" "HOL-Library.Char_ord" "HOL-Library.List_Lexorder"
begin

unbundle bit_operations_syntax

section \<open>JavaScript strings\<close>

text \<open>
  Strings are byte lists. The functions below are the \<^verbatim>\<open>String.prototype\<close> methods the
  crawler calls; on ASCII text a byte is a UTF-16 code unit, so lengths and indices agree
  with the source there.
\<close>

definition is_upper :: "char \<Rightarrow> bool" where
  "is_upper c = (CHR ''A'' \<le> c \<and> c \<le> CHR ''Z'')"

definition is_lower :: "char \<Rightarrow> bool" where
  "is_lower c = (CHR ''a'' \<le> c \<and> c \<le> CHR ''z'')"

definition is_digit :: "char \<Rightarrow> bool" where
  "is_digit c = (CHR ''0'' \<le> c \<and> c \<le> CHR ''9'')"

definition is_alpha :: "char \<Rightarrow> bool" where
  "is_alpha c = (is_upper c \<or> is_lower c)"

definition lower_char :: "char \<Rightarrow> char" where
  "lower_char c = (if is_upper c then char_of (of_char c + (32::int)) else c)"

definition toLowerCase :: "string \<Rightarrow> string" where
  "toLowerCase s = map lower_char s"

definition startsWith :: "string \<Rightarrow> string \<Rightarrow> bool" where
  "startsWith s t = (take (length t) s = t)"

definition endsWith :: "string \<Rightarrow> string \<Rightarrow> bool" where
  "endsWith s t = (length t \<le> length s \<and> drop (length s - length t) s = t)"

text \<open>\<^verbatim>\<open>s.split(c)\<close> for a one-character separator: never the empty list.\<close>

fun split :: "char \<Rightarrow> string \<Rightarrow> string list" where
  "split c [] = [[]]"
| "split c (x # xs) =
     (if x = c then [] # split c xs
      else (case split c xs of [] \<Rightarrow> [[x]] | y # ys \<Rightarrow> (x # y) # ys))"

fun join :: "string \<Rightarrow> string list \<Rightarrow> string" where
  "join sep [] = []"
| "join sep [x] = x"
| "join sep (x # y # ys) = x @ sep @ join sep (y # ys)"

text \<open>\<^verbatim>\<open>s.lastIndexOf(c)\<close>: the last index of \<open>c\<close>, or \<open>-1\<close>.\<close>

fun lastIndexOf_from :: "char \<Rightarrow> string \<Rightarrow> int \<Rightarrow> int \<Rightarrow> int" where
  "lastIndexOf_from c [] i found = found"
| "lastIndexOf_from c (x # xs) i found =
     lastIndexOf_from c xs (i + 1) (if x = c then i else found)"

definition lastIndexOf :: "string \<Rightarrow> char \<Rightarrow> int" where
  "lastIndexOf s c = lastIndexOf_from c s 0 (-1)"

text \<open>\<^verbatim>\<open>s.slice(i)\<close> and \<^verbatim>\<open>s.slice(0, j)\<close> for indices that are not negative.\<close>

definition slice_from :: "string \<Rightarrow> int \<Rightarrow> string" where
  "slice_from s i = drop (nat i) s"

definition slice_to :: "string \<Rightarrow> int \<Rightarrow> string" where
  "slice_to s j = take (nat j) s"

text \<open>Numbers are \<open>int\<close>; \<open>show_int\<close> is the decimal string of one that is not negative.\<close>

function show_int :: "int \<Rightarrow> string" where
  "show_int n =
     (if n < 10 then [char_of (48 + n)]
      else show_int (n div 10) @ [char_of (48 + n mod 10)])"
  by pat_completeness auto
termination
  by (relation "measure nat") auto

definition digit_val :: "char \<Rightarrow> int" where
  "digit_val c = of_char c - 48"

definition read_int :: "string \<Rightarrow> int" where
  "read_int s = foldl (\<lambda>acc c. 10 * acc + digit_val c) 0 s"

section \<open>The platform's URL class\<close>

text \<open>
  \<^verbatim>\<open>new URL(s)\<close> is the runtime's, not the repository's. Its result is modelled by the URL
  record of the URL standard; the getters, the setters \<^verbatim>\<open>normalizeUrl\<close> calls and the
  serialiser behind \<^verbatim>\<open>href\<close> are functions on that record. The parser itself is a
  parameter of every function that parses (the field \<open>urlParse\<close> of a \<open>platform\<close>),
  so that the theorems about the frontier, the registry and the guard hold for any
  parser. \<open>None\<close> is the \<^verbatim>\<open>TypeError\<close> the constructor throws.
\<close>

record URL =
  scheme :: string
  host :: "string option"
  port :: "int option"
  path :: string
  opaque :: bool
  query :: "string option"
  fragment :: "string option"

definition protocol :: "URL \<Rightarrow> string" where
  "protocol u = scheme u @ '':''"

definition hostname :: "URL \<Rightarrow> string" where
  "hostname u = (case host u of None \<Rightarrow> [] | Some h \<Rightarrow> h)"

definition port_str :: "URL \<Rightarrow> string" where
  "port_str u = (case port u of None \<Rightarrow> [] | Some p \<Rightarrow> show_int p)"

definition pathname :: "URL \<Rightarrow> string" where
  "pathname u = path u"

definition search :: "URL \<Rightarrow> string" where
  "search u = (case query u of None \<Rightarrow> [] | Some q \<Rightarrow> if q = [] then [] else CHR ''?'' # q)"

definition href :: "URL \<Rightarrow> string" where
  "href u =
     scheme u @ '':''
     @ (case host u of
          Some h \<Rightarrow> ''//'' @ h @ (case port u of None \<Rightarrow> [] | Some p \<Rightarrow> CHR '':'' # show_int p)
        | None \<Rightarrow> if \<not> opaque u \<and> startsWith (path u) ''//'' then ''/.'' else [])
     @ path u
     @ (case query u of None \<Rightarrow> [] | Some q \<Rightarrow> CHR ''?'' # q)
     @ (case fragment u of None \<Rightarrow> [] | Some f \<Rightarrow> CHR ''#'' # f)"

text \<open>
  The setters, at the values \<^verbatim>\<open>normalizeUrl\<close> gives them: the URL's own protocol and
  host name in lower case, the empty port, its own path less the final slash, a query
  string that \<^verbatim>\<open>URLSearchParams\<close> serialised, the empty hash. A URL with an opaque path
  ignores the host and path setters.
\<close>

definition set_protocol :: "URL \<Rightarrow> string \<Rightarrow> URL" where
  "set_protocol u v = u\<lparr>scheme := takeWhile (\<lambda>c. c \<noteq> CHR '':'') v\<rparr>"

definition set_hostname :: "URL \<Rightarrow> string \<Rightarrow> URL" where
  "set_hostname u v = (if opaque u \<or> host u = None then u else u\<lparr>host := Some v\<rparr>)"

definition clear_port :: "URL \<Rightarrow> URL" where
  "clear_port u = u\<lparr>port := None\<rparr>"

definition set_pathname :: "URL \<Rightarrow> string \<Rightarrow> URL" where
  "set_pathname u v = (if opaque u then u else u\<lparr>path := v\<rparr>)"

definition set_search :: "URL \<Rightarrow> string \<Rightarrow> URL" where
  "set_search u v = (if v = [] then u\<lparr>query := None\<rparr> else u\<lparr>query := Some v\<rparr>)"

definition clear_hash :: "URL \<Rightarrow> URL" where
  "clear_hash u = u\<lparr>fragment := None\<rparr>"

record platform =
  urlParse :: "string \<Rightarrow> URL option"
  urlResolve :: "string \<Rightarrow> string \<Rightarrow> URL option"
  qsParse :: "string \<Rightarrow> (string \<times> string) list"
  qsSerialize :: "(string \<times> string) list \<Rightarrow> string"

section \<open>URL utilities (utils/url.ts)\<close>

text \<open>
  \<^verbatim>\<open>[...params.entries()].sort()\<close>: the default comparator orders the pairs by their
  string form \<^verbatim>\<open>"key,value"\<close>; the sort is stable.
\<close>

definition sort_entries :: "(string \<times> string) list \<Rightarrow> (string \<times> string) list" where
  "sort_entries es = sort_key (\<lambda>(k, v). k @ '','' @ v) es"

text \<open>No caller in the repository passes the optional base URL; it is left out.\<close>

definition normalizeUrl :: "platform \<Rightarrow> string \<Rightarrow> string option" where
  "normalizeUrl pf urlString =
     (case urlParse pf urlString of
        None \<Rightarrow> None
      | Some u0 \<Rightarrow>
          let u1 = set_protocol u0 (toLowerCase (protocol u0));
              u2 = set_hostname u1 (toLowerCase (hostname u1));
              u3 = (if (protocol u2 = ''http:'' \<and> port_str u2 = ''80'') \<or>
                       (protocol u2 = ''https:'' \<and> port_str u2 = ''443'')
                    then clear_port u2 else u2);
              u4 = (if pathname u3 \<noteq> ''/'' \<and> endsWith (pathname u3) ''/''
                    then set_pathname u3 (butlast (pathname u3)) else u3);
              u5 = (if search u4 \<noteq> []
                    then set_search u4 (qsSerialize pf (sort_entries (qsParse pf (search u4))))
                    else u4);
              u6 = clear_hash u5
          in Some (href u6))"

definition getDomain :: "platform \<Rightarrow> string \<Rightarrow> string option" where
  "getDomain pf urlString =
     (case urlParse pf urlString of
        None \<Rightarrow> None
      | Some u \<Rightarrow> Some (toLowerCase (hostname u)))"

definition commonSecondLevelTLDs :: "string list" where
  "commonSecondLevelTLDs = [''co'', ''com'', ''org'', ''net'', ''gov'', ''edu'', ''ac'']"

text \<open>\<^verbatim>\<open>parts.slice(-n)\<close>: the last \<open>n\<close> elements.\<close>

definition slice_last :: "nat \<Rightarrow> 'a list \<Rightarrow> 'a list" where
  "slice_last n xs = drop (length xs - n) xs"

definition getBaseDomain :: "platform \<Rightarrow> string \<Rightarrow> string option" where
  "getBaseDomain pf urlString =
     (case getDomain pf urlString of
        None \<Rightarrow> None
      | Some domain \<Rightarrow>
          if domain = [] then None
          else let parts = split CHR ''.'' domain in
            if length parts \<le> 2 then Some domain
            else let lastPart = parts ! (length parts - 2) in
              if lastPart \<noteq> [] \<and> lastPart \<in> set commonSecondLevelTLDs \<and> length parts > 2
              then Some (join ''.'' (slice_last 3 parts))
              else Some (join ''.'' (slice_last 2 parts)))"

datatype Scope = SameDomain | SameHost | Subdomains | Custom

text \<open>
  \<^verbatim>\<open>isInScope\<close> takes one of the three scopes it knows; for any other value its
  \<^verbatim>\<open>default\<close> branch answers \<^verbatim>\<open>false\<close>.
\<close>

definition isInScope :: "platform \<Rightarrow> string \<Rightarrow> string \<Rightarrow> Scope \<Rightarrow> bool" where
  "isInScope pf u seed sc =
     (case (getDomain pf u, getDomain pf seed) of
        (Some urlDomain, Some seedDomain) \<Rightarrow>
          if urlDomain = [] \<or> seedDomain = [] then False
          else (case sc of
                  SameHost \<Rightarrow> urlDomain = seedDomain
                | SameDomain \<Rightarrow> getBaseDomain pf u = getBaseDomain pf seed
                | Subdomains \<Rightarrow>
                    (case getBaseDomain pf seed of
                       None \<Rightarrow> False
                     | Some baseDomain \<Rightarrow>
                         urlDomain = baseDomain \<or> endsWith urlDomain (CHR ''.'' # baseDomain))
                | Custom \<Rightarrow> False)
      | _ \<Rightarrow> False)"

text \<open>
  \<^verbatim>\<open>matchesPattern\<close> escapes the regular-expression characters of the pattern, turns
  \<^verbatim>\<open>*\<close> into \<^verbatim>\<open>.*\<close> and \<^verbatim>\<open>?\<close> into \<^verbatim>\<open>.\<close>, and tests the anchored, case-insensitive
  expression: a glob match in which a wildcard does not cross a line terminator.
\<close>

definition line_terminator :: "char \<Rightarrow> bool" where
  "line_terminator c = (c = CHR 0x0A \<or> c = CHR 0x0D)"

fun glob_match :: "string \<Rightarrow> string \<Rightarrow> bool" where
  "glob_match [] [] = True"
| "glob_match [] (c # cs) = False"
| "glob_match (p # ps) [] = (p = CHR ''*'' \<and> glob_match ps [])"
| "glob_match (p # ps) (c # cs) =
     (if p = CHR ''*''
      then glob_match ps (c # cs) \<or> (\<not> line_terminator c \<and> glob_match (p # ps) cs)
      else (if p = CHR ''?'' then \<not> line_terminator c else lower_char p = lower_char c)
           \<and> glob_match ps cs)"

definition matchesPattern :: "string \<Rightarrow> string \<Rightarrow> bool" where
  "matchesPattern u pattern = glob_match pattern u"

text \<open>
  The table is a plain object, so the two lower-case names every object inherits,
  \<^verbatim>\<open>constructor\<close> and \<^verbatim>\<open>__proto__\<close>, look up to a value that is none of the eight
  categories: \<open>Inherited\<close>.
\<close>

datatype MimeCategory =
  Html | Css | Js | Images | Fonts | Media | Documents | Other | Inherited

definition categories :: "(string \<times> MimeCategory) list" where
  "categories =
     [(''html'', Html), (''htm'', Html), (''xhtml'', Html),
      (''css'', Css), (''scss'', Css), (''sass'', Css), (''less'', Css),
      (''js'', Js), (''mjs'', Js), (''jsx'', Js), (''ts'', Js), (''tsx'', Js),
      (''jpg'', Images), (''jpeg'', Images), (''png'', Images), (''gif'', Images),
      (''webp'', Images), (''svg'', Images), (''ico'', Images), (''bmp'', Images),
      (''avif'', Images),
      (''woff'', Fonts), (''woff2'', Fonts), (''ttf'', Fonts), (''otf'', Fonts),
      (''eot'', Fonts),
      (''mp4'', Media), (''webm'', Media), (''ogg'', Media), (''mp3'', Media),
      (''wav'', Media), (''flac'', Media),
      (''pdf'', Documents), (''doc'', Documents), (''docx'', Documents),
      (''xls'', Documents), (''xlsx'', Documents), (''ppt'', Documents),
      (''pptx'', Documents)]"

definition getMimeCategory :: "string \<Rightarrow> MimeCategory" where
  "getMimeCategory ext =
     (let l = toLowerCase ext;
          extension = (case l of [] \<Rightarrow> [] | c # cs \<Rightarrow> if c = CHR ''.'' then cs else l)
      in case map_of categories extension of
           Some c \<Rightarrow> c
         | None \<Rightarrow>
             if extension = ''constructor'' \<or> extension = ''__proto__'' then Inherited
             else Other)"

definition getExtensionFromUrl :: "platform \<Rightarrow> string \<Rightarrow> string" where
  "getExtensionFromUrl pf urlString =
     (case urlParse pf urlString of
        None \<Rightarrow> []
      | Some u \<Rightarrow>
          let p = pathname u;
              lastDot = lastIndexOf p CHR ''.'';
              lastSlash = lastIndexOf p CHR ''/''
          in if lastDot > lastSlash \<and> lastDot \<noteq> -1
             then toLowerCase (slice_from p (lastDot + 1)) else [])"

section \<open>A reference parser\<close>

text \<open>
  A parser to run the model on concrete inputs: the URL standard's basic parser, without a
  base URL, on the inputs \<^verbatim>\<open>http(s)://host[:port][/path][?query][#fragment]\<close> whose host
  is made of ASCII letters, digits, \<^verbatim>\<open>-\<close>, \<^verbatim>\<open>_\<close> and \<^verbatim>\<open>.\<close> and whose path, query and fragment
  hold only characters the standard leaves as they are. An input with no scheme is a
  failure, as in the standard (there is no base URL to resolve it against). What the
  fragment does not cover (other schemes, credentials, IPv6 and non-decimal IPv4 hosts,
  characters that would be percent-encoded) also answers \<open>None\<close> here, which is not the
  platform's answer; no theorem below relies on \<open>None\<close> for such an input.
\<close>

definition is_scheme_char :: "char \<Rightarrow> bool" where
  "is_scheme_char c =
     (is_alpha c \<or> is_digit c \<or> c = CHR ''+'' \<or> c = CHR ''-'' \<or> c = CHR ''.'')"

definition parse_scheme :: "string \<Rightarrow> (string \<times> string) option" where
  "parse_scheme s =
     (case s of
        [] \<Rightarrow> None
      | c # cs \<Rightarrow>
          if \<not> is_alpha c then None
          else (case dropWhile is_scheme_char s of
                  [] \<Rightarrow> None
                | d # rest \<Rightarrow>
                    if d = CHR '':'' then Some (toLowerCase (takeWhile is_scheme_char s), rest)
                    else None))"

definition is_c0_or_space :: "char \<Rightarrow> bool" where
  "is_c0_or_space c = (c \<le> CHR 0x20)"

definition is_tab_or_newline :: "char \<Rightarrow> bool" where
  "is_tab_or_newline c = (c = CHR 0x09 \<or> c = CHR 0x0A \<or> c = CHR 0x0D)"

definition strip_input :: "string \<Rightarrow> string" where
  "strip_input s =
     filter (\<lambda>c. \<not> is_tab_or_newline c)
       (rev (dropWhile is_c0_or_space (rev (dropWhile is_c0_or_space s))))"

definition is_host_char :: "char \<Rightarrow> bool" where
  "is_host_char c =
     (is_lower c \<or> is_digit c \<or> c = CHR ''-'' \<or> c = CHR ''_'' \<or> c = CHR ''.'')"

definition is_decimal_octet :: "string \<Rightarrow> bool" where
  "is_decimal_octet s =
     (s \<noteq> [] \<and> list_all is_digit s \<and> length s \<le> 3 \<and> read_int s \<le> 255
      \<and> (length s = 1 \<or> hd s \<noteq> CHR ''0''))"

text \<open>
  The host of a special scheme: not empty, lower-cased; a host whose last label is a
  number goes to the IPv4 parser, covered here for four decimal octets.
\<close>

definition host_of_labels :: "string \<Rightarrow> string list \<Rightarrow> string option" where
  "host_of_labels h labels =
     (case rev labels of
        [] \<Rightarrow> None
      | l0 # ls \<Rightarrow>
          (case (if ls \<noteq> [] \<and> l0 = [] then hd ls else l0) of final \<Rightarrow>
             if final \<noteq> [] \<and> (list_all is_digit final \<or> startsWith final ''0x'')
             then (if length labels = 4 \<and> list_all is_decimal_octet labels then Some h
                   else None)
             else Some h))"

definition host_of_lower :: "string \<Rightarrow> string option" where
  "host_of_lower h =
     (if h = [] \<or> \<not> list_all is_host_char h then None
      else host_of_labels h (split CHR ''.'' h))"

definition parse_host :: "string \<Rightarrow> string option" where
  "parse_host s = host_of_lower (toLowerCase s)"

definition default_port :: "string \<Rightarrow> int option" where
  "default_port sch =
     (if sch = ''http'' then Some 80 else if sch = ''https'' then Some 443 else None)"

definition parse_port :: "string \<Rightarrow> string \<Rightarrow> int option option" where
  "parse_port sch s =
     (if s = [] then Some None
      else if \<not> list_all is_digit s then None
      else let p = read_int s in
        if p > 65535 then None
        else if default_port sch = Some p then Some None else Some (Some p))"

definition is_path_char :: "char \<Rightarrow> bool" where
  "is_path_char c =
     (CHR 0x20 < c \<and> c < CHR 0x7F \<and>
      c \<notin> set [CHR 0x22, CHR ''#'', CHR ''<'', CHR ''>'', CHR ''?'', CHR 0x5C, CHR ''^'',
                  CHR 0x60, CHR ''{'', CHR ''}''])"

definition is_query_char :: "char \<Rightarrow> bool" where
  "is_query_char c =
     (CHR 0x20 < c \<and> c < CHR 0x7F \<and>
      c \<notin> set [CHR 0x22, CHR ''#'', CHR ''<'', CHR ''>'', CHR 0x27])"

definition is_fragment_char :: "char \<Rightarrow> bool" where
  "is_fragment_char c =
     (CHR 0x20 < c \<and> c < CHR 0x7F \<and>
      c \<notin> set [CHR 0x22, CHR ''<'', CHR ''>'', CHR 0x60])"

definition is_single_dot :: "string \<Rightarrow> bool" where
  "is_single_dot seg = (toLowerCase seg \<in> set [''.'', ''%2e''])"

definition is_double_dot :: "string \<Rightarrow> bool" where
  "is_double_dot seg = (toLowerCase seg \<in> set [''..'', ''.%2e'', ''%2e.'', ''%2e%2e''])"

text \<open>The path state: the segments so far are kept in \<open>acc\<close>.\<close>

fun path_segments :: "string list \<Rightarrow> string list \<Rightarrow> string list" where
  "path_segments acc [] = acc"
| "path_segments acc [seg] =
     (if is_double_dot seg then butlast acc @ [[]]
      else if is_single_dot seg then acc @ [[]]
      else acc @ [seg])"
| "path_segments acc (seg # segs) =
     (if is_double_dot seg then path_segments (butlast acc) segs
      else if is_single_dot seg then path_segments acc segs
      else path_segments (acc @ [seg]) segs)"

definition parse_path :: "string \<Rightarrow> string option" where
  "parse_path s =
     (if \<not> list_all is_path_char s then None
      else case s of
             [] \<Rightarrow> Some ''/''
           | c # cs \<Rightarrow>
               Some (concat (map (\<lambda>seg. CHR ''/'' # seg)
                               (path_segments [] (split CHR ''/'' cs)))))"

definition span_while :: "(char \<Rightarrow> bool) \<Rightarrow> string \<Rightarrow> string \<times> string" where
  "span_while p s = (takeWhile p s, dropWhile p s)"

definition parse_authority :: "string \<Rightarrow> string \<Rightarrow> (string \<times> int option) option" where
  "parse_authority sch authority =
     (if CHR ''@'' \<in> set authority \<or> CHR ''['' \<in> set authority then None
      else case span_while (\<lambda>c. c \<noteq> CHR '':'') authority of
        (hostpart, portpart) \<Rightarrow>
          (case parse_host hostpart of
             None \<Rightarrow> None
           | Some h \<Rightarrow>
               (case parse_port sch (tl portpart) of
                  None \<Rightarrow> None
                | Some p \<Rightarrow> Some (h, p))))"

definition parse_fragment :: "string \<Rightarrow> string option option" where
  "parse_fragment s =
     (case s of
        [] \<Rightarrow> Some None
      | c # f \<Rightarrow> if list_all is_fragment_char f then Some (Some f) else None)"

definition parse_query_fragment :: "string \<Rightarrow> (string option \<times> string option) option" where
  "parse_query_fragment s =
     (case s of
        [] \<Rightarrow> Some (None, None)
      | c # cs \<Rightarrow>
          if c = CHR ''?''
          then (case span_while (\<lambda>c. c \<noteq> CHR ''#'') cs of
                  (q, r) \<Rightarrow>
                    if \<not> list_all is_query_char q then None
                    else (case parse_fragment r of
                            None \<Rightarrow> None
                          | Some f \<Rightarrow> Some (Some q, f)))
          else (case parse_fragment s of
                  None \<Rightarrow> None
                | Some f \<Rightarrow> Some (None, f)))"

definition is_slash :: "char \<Rightarrow> bool" where
  "is_slash c = (c = CHR ''/'' \<or> c = CHR 0x5C)"

definition parse_special :: "string \<Rightarrow> string \<Rightarrow> URL option" where
  "parse_special sch rest =
     (case span_while (\<lambda>c. \<not> is_slash c \<and> c \<noteq> CHR ''?'' \<and> c \<noteq> CHR ''#'')
             (dropWhile is_slash rest) of
        (authority, rest2) \<Rightarrow>
          (case parse_authority sch authority of
             None \<Rightarrow> None
           | Some (h, p) \<Rightarrow>
               (case span_while (\<lambda>c. c \<noteq> CHR ''?'' \<and> c \<noteq> CHR ''#'') rest2 of
                  (pathpart, rest3) \<Rightarrow>
                    (case parse_path pathpart of
                       None \<Rightarrow> None
                     | Some pth \<Rightarrow>
                         (case parse_query_fragment rest3 of
                            None \<Rightarrow> None
                          | Some (q, f) \<Rightarrow>
                              Some \<lparr>scheme = sch, host = Some h, port = p, path = pth,
                                    opaque = False, query = q, fragment = f\<rparr>)))))"

definition parseURL :: "string \<Rightarrow> URL option" where
  "parseURL input =
     (case parse_scheme (strip_input input) of
        None \<Rightarrow> None
      | Some (sch, rest) \<Rightarrow>
          if sch \<noteq> ''http'' \<and> sch \<noteq> ''https'' then None
          else parse_special sch rest)"

text \<open>
  \<^verbatim>\<open>URLSearchParams\<close>: the \<^verbatim>\<open>application/x-www-form-urlencoded\<close> parser and serialiser
  of the URL standard, on bytes.
\<close>

definition hex_val :: "char \<Rightarrow> int option" where
  "hex_val c =
     (if is_digit c then Some (of_char c - 48)
      else if CHR ''a'' \<le> c \<and> c \<le> CHR ''f'' then Some (of_char c - 87)
      else if CHR ''A'' \<le> c \<and> c \<le> CHR ''F'' then Some (of_char c - 55)
      else None)"

fun percent_decode :: "string \<Rightarrow> string" where
  "percent_decode (c # h1 # h2 # rest) =
     (if c = CHR ''%''
      then (case (hex_val h1, hex_val h2) of
              (Some a, Some b) \<Rightarrow> char_of (16 * a + b) # percent_decode rest
            | _ \<Rightarrow> c # percent_decode (h1 # h2 # rest))
      else c # percent_decode (h1 # h2 # rest))"
| "percent_decode s = s"

definition form_decode :: "string \<Rightarrow> string" where
  "form_decode s = percent_decode (map (\<lambda>c. if c = CHR ''+'' then CHR '' '' else c) s)"

definition parse_qs :: "string \<Rightarrow> (string \<times> string) list" where
  "parse_qs s =
     map (\<lambda>seq. (form_decode (takeWhile (\<lambda>c. c \<noteq> CHR ''='') seq),
                 form_decode (tl (dropWhile (\<lambda>c. c \<noteq> CHR ''='') seq))))
       (filter (\<lambda>seq. seq \<noteq> [])
          (split CHR ''&'' (case s of [] \<Rightarrow> [] | c # cs \<Rightarrow> if c = CHR ''?'' then cs else s)))"

definition hex_digit :: "int \<Rightarrow> char" where
  "hex_digit n = (if n < 10 then char_of (48 + n) else char_of (55 + n))"

definition form_encode_char :: "char \<Rightarrow> string" where
  "form_encode_char c =
     (if is_alpha c \<or> is_digit c \<or> c \<in> set ''*-._'' then [c]
      else if c = CHR '' '' then ''+''
      else [CHR ''%'', hex_digit (of_char c div 16), hex_digit (of_char c mod 16)])"

definition serialize_qs :: "(string \<times> string) list \<Rightarrow> string" where
  "serialize_qs es =
     join ''&'' (map (\<lambda>(k, v). concat (map form_encode_char k) @ ''='' @
                               concat (map form_encode_char v)) es)"

text \<open>
  \<^verbatim>\<open>new URL(relative, base)\<close> for an absolute reference, a scheme-relative one, an absolute
  path and a relative path, against a base the reference parser accepts.
\<close>

definition resolveURL :: "string \<Rightarrow> string \<Rightarrow> URL option" where
  "resolveURL relative base =
     (case parseURL relative of
        Some u \<Rightarrow> Some u
      | None \<Rightarrow>
          (case parseURL base of
             None \<Rightarrow> None
           | Some b \<Rightarrow>
               let r = strip_input relative;
                   origin = scheme b @ ''://'' @ hostname b
                            @ (case port b of None \<Rightarrow> [] | Some p \<Rightarrow> CHR '':'' # show_int p)
               in if startsWith r ''//'' then parseURL (scheme b @ '':'' @ r)
                  else if startsWith r ''/'' then parseURL (origin @ r)
                  else if r = [] then Some (b\<lparr>fragment := None\<rparr>)
                  else if hd r = CHR ''#'' then parseURL (href (b\<lparr>fragment := None\<rparr>) @ r)
                  else if hd r = CHR ''?''
                  then parseURL (href (b\<lparr>query := None, fragment := None\<rparr>) @ r)
                  else parseURL (origin
                                 @ rev (dropWhile (\<lambda>c. c \<noteq> CHR ''/'') (rev (path b))) @ r)))"

definition node :: platform where
  "node = \<lparr>urlParse = parseURL, urlResolve = resolveURL, qsParse = parse_qs,
           qsSerialize = serialize_qs\<rparr>"

section \<open>Crawl options (security/validation.ts)\<close>

record FileTypes =
  ft_html :: bool
  ft_css :: bool
  ft_js :: bool
  ft_images :: bool
  ft_fonts :: bool
  ft_media :: bool
  ft_documents :: bool
  ft_other :: bool

record CrawlOptions =
  opt_url :: string
  scope :: Scope
  customDomains :: "string list option"
  includePaths :: "string list option"
  excludePaths :: "string list option"
  unlimitedMode :: bool
  maxDepth :: int
  maxPages :: int
  maxFileSize :: int
  maxTotalSize :: int
  fileTypes :: "FileTypes option"
  concurrency :: int
  delayMs :: int
  timeoutMs :: int
  userAgent :: "string option"
  customHeaders :: "(string \<times> string) list option"
  respectRobotsTxt :: bool
  followRedirects :: bool
  maxRedirects :: int

text \<open>The defaults of \<^verbatim>\<open>crawlOptionsSchema\<close> for a given target URL.\<close>

definition defaultOptions :: "string \<Rightarrow> CrawlOptions" where
  "defaultOptions u =
     \<lparr>opt_url = u, scope = SameDomain, customDomains = None, includePaths = None,
      excludePaths = None, unlimitedMode = False, maxDepth = 50, maxPages = 10000,
      maxFileSize = 50 * 1024 * 1024, maxTotalSize = 1024 * 1024 * 1024, fileTypes = None,
      concurrency = 5, delayMs = 100, timeoutMs = 60000, userAgent = None,
      customHeaders = None, respectRobotsTxt = False, followRedirects = True, maxRedirects = 10\<rparr>"

text \<open>\<^verbatim>\<open>fileTypes[category] === false\<close>\<close>

definition fileType_disabled :: "FileTypes \<Rightarrow> MimeCategory \<Rightarrow> bool" where
  "fileType_disabled ft c =
     (case c of
        Html \<Rightarrow> \<not> ft_html ft
      | Css \<Rightarrow> \<not> ft_css ft
      | Js \<Rightarrow> \<not> ft_js ft
      | Images \<Rightarrow> \<not> ft_images ft
      | Fonts \<Rightarrow> \<not> ft_fonts ft
      | Media \<Rightarrow> \<not> ft_media ft
      | Documents \<Rightarrow> \<not> ft_documents ft
      | Other \<Rightarrow> \<not> ft_other ft
      | Inherited \<Rightarrow> False)"

section \<open>The frontier (crawler/queue.ts)\<close>

datatype UrlStatus = Pending | InProgress | Complete | Failed | Skipped

record QueuedUrl =
  q_url :: string
  normalizedUrl :: string
  depth :: int
  parentUrl :: "string option"
  status :: UrlStatus
  retries :: int
  addedAt :: int
  processedAt :: "int option"
  error :: "string option"

text \<open>
  A \<^verbatim>\<open>Map\<close> keeps its keys in insertion order: an association list with one entry
  for a key. \<^verbatim>\<open>set\<close> replaces the value of a key in place and appends a new key.
\<close>

fun map_set :: "'k \<Rightarrow> 'v \<Rightarrow> ('k \<times> 'v) list \<Rightarrow> ('k \<times> 'v) list" where
  "map_set k v [] = [(k, v)]"
| "map_set k v ((k', v') # rest) =
     (if k' = k then (k, v) # rest else (k', v') # map_set k v rest)"

definition map_has :: "('k \<times> 'v) list \<Rightarrow> 'k \<Rightarrow> bool" where
  "map_has m k = (map_of m k \<noteq> None)"

record UrlQueue =
  queue :: "(string \<times> QueuedUrl) list"
  pendingUrls :: "string list"
  options :: CrawlOptions
  seedUrl :: string

text \<open>The constructor; \<open>now\<close> is the value of \<^verbatim>\<open>Date.now()\<close>.\<close>

definition newQueuedUrl :: "string \<Rightarrow> string \<Rightarrow> int \<Rightarrow> string option \<Rightarrow> int \<Rightarrow> QueuedUrl" where
  "newQueuedUrl u normalized d parent now =
     \<lparr>q_url = u, normalizedUrl = normalized, depth = d, parentUrl = parent,
      status = Pending, retries = 0, addedAt = now, processedAt = None, error = None\<rparr>"

definition UrlQueue_new :: "platform \<Rightarrow> int \<Rightarrow> string \<Rightarrow> CrawlOptions \<Rightarrow> UrlQueue" where
  "UrlQueue_new pf now seed opts =
     (case normalizeUrl pf seed of
        None \<Rightarrow> \<lparr>queue = [], pendingUrls = [], options = opts, seedUrl = seed\<rparr>
      | Some normalized \<Rightarrow>
          \<lparr>queue = [(normalized, newQueuedUrl seed normalized 0 None now)],
           pendingUrls = [normalized], options = opts, seedUrl = seed\<rparr>)"

definition enqueue :: "UrlQueue \<Rightarrow> string \<Rightarrow> QueuedUrl \<Rightarrow> UrlQueue" where
  "enqueue q normalized item =
     q\<lparr>queue := map_set normalized item (queue q),
       pendingUrls := pendingUrls q @ [normalized]\<rparr>"

definition fileType_rejects :: "platform \<Rightarrow> CrawlOptions \<Rightarrow> string \<Rightarrow> bool" where
  "fileType_rejects pf opts normalized =
     (case fileTypes opts of
        None \<Rightarrow> False
      | Some ft \<Rightarrow> fileType_disabled ft (getMimeCategory (getExtensionFromUrl pf normalized)))"

definition customDomain_matches :: "string list \<Rightarrow> string \<Rightarrow> bool" where
  "customDomain_matches ds urlHost =
     list_ex (\<lambda>d. urlHost = d \<or> endsWith urlHost (CHR ''.'' # d)) ds"

text \<open>The rest of \<^verbatim>\<open>add\<close> after the scope checks: patterns, file types, enqueue.\<close>

definition add_filters :: "platform \<Rightarrow> int \<Rightarrow> UrlQueue \<Rightarrow> string \<Rightarrow> string \<Rightarrow> int \<Rightarrow> string \<Rightarrow> string + (bool \<times> UrlQueue)" where
  "add_filters pf now q u parent d normalized =
     (let opts = options q in
      if (case includePaths opts of
            None \<Rightarrow> False
          | Some ps \<Rightarrow> ps \<noteq> [] \<and> \<not> list_ex (\<lambda>pattern. matchesPattern normalized pattern) ps)
      then Inr (False, q)
      else if (case excludePaths opts of
                 None \<Rightarrow> False
               | Some ps \<Rightarrow> ps \<noteq> [] \<and> list_ex (\<lambda>pattern. matchesPattern normalized pattern) ps)
      then Inr (False, q)
      else if fileType_rejects pf opts normalized then Inr (False, q)
      else Inr (True, enqueue q normalized (newQueuedUrl u normalized d (Some parent) now)))"

text \<open>
  \<^verbatim>\<open>add\<close>, the admission of a page. \<open>Inl\<close> is the \<^verbatim>\<open>TypeError\<close> of
  \<^verbatim>\<open>new URL(normalized)\<close> in the custom-domain check.
\<close>

definition add :: "platform \<Rightarrow> int \<Rightarrow> UrlQueue \<Rightarrow> string \<Rightarrow> string \<Rightarrow> int \<Rightarrow> string + (bool \<times> UrlQueue)" where
  "add pf now q u parent d =
     (let opts = options q in
      case normalizeUrl pf u of
        None \<Rightarrow> Inr (False, q)
      | Some normalized \<Rightarrow>
          if map_has (queue q) normalized then Inr (False, q)
          else if \<not> unlimitedMode opts \<and> d > maxDepth opts then Inr (False, q)
          else if \<not> unlimitedMode opts \<and> int (length (queue q)) \<ge> maxPages opts
          then Inr (False, q)
          else if \<not> isInScope pf normalized (seedUrl q)
                      (if scope opts = Custom then SameDomain else scope opts)
          then Inr (False, q)
          else
            (case (if scope opts = Custom then customDomains opts else None) of
               Some ds \<Rightarrow>
                 (case urlParse pf normalized of
                    None \<Rightarrow> Inl ''Invalid URL''
                  | Some parsed \<Rightarrow>
                      if \<not> customDomain_matches ds (hostname parsed) then Inr (False, q)
                                  else add_filters pf now q u parent d normalized)
             | None \<Rightarrow> add_filters pf now q u parent d normalized))"

text \<open>\<^verbatim>\<open>addAsset\<close>, the admission of an asset.\<close>

definition addAsset :: "platform \<Rightarrow> int \<Rightarrow> UrlQueue \<Rightarrow> string \<Rightarrow> string \<Rightarrow> int \<Rightarrow> bool \<times> UrlQueue" where
  "addAsset pf now q u parent d =
     (let opts = options q in
      case normalizeUrl pf u of
        None \<Rightarrow> (False, q)
      | Some normalized \<Rightarrow>
          if map_has (queue q) normalized then (False, q)
          else if \<not> unlimitedMode opts \<and> d > maxDepth opts + 5 then (False, q)
          else if \<not> unlimitedMode opts \<and> int (length (queue q)) \<ge> maxPages opts
          then (False, q)
          else if fileType_rejects pf opts normalized then (False, q)
          else (True, enqueue q normalized (newQueuedUrl u normalized d (Some parent) now)))"

text \<open>A frontier for the examples: seed \<^verbatim>\<open>https://a.test/\<close>, scope same-host.\<close>

definition sameHostQueue :: UrlQueue where
  "sameHostQueue =
     UrlQueue_new node 0 ''https://a.test/''
       ((defaultOptions ''https://a.test/'')\<lparr>scope := SameHost\<rparr>)"

text \<open>
  A frontier with scope custom: seed \<^verbatim>\<open>https://a.test/\<close>, custom domains
  \<^verbatim>\<open>b.test\<close> and \<^verbatim>\<open>www.a.test\<close>.
\<close>

definition customQueue :: UrlQueue where
  "customQueue =
     UrlQueue_new node 0 ''https://a.test/''
       ((defaultOptions ''https://a.test/'')
          \<lparr>scope := Custom, customDomains := Some [''b.test'', ''www.a.test'']\<rparr>)"

text \<open>The host name \<^verbatim>\<open>add\<close> tests against the custom domains.\<close>

definition hostnameOf :: "platform \<Rightarrow> string \<Rightarrow> string" where
  "hostnameOf pf u = (case urlParse pf u of None \<Rightarrow> [] | Some parsed \<Rightarrow> hostname parsed)"

section \<open>The SSRF guard (security/ssrf.ts)\<close>

text \<open>
  \<^verbatim>\<open>Number(part)\<close> on a part of a dotted string: a run of digits is its decimal value
  and the empty string is 0. Any other part is taken as \<^verbatim>\<open>NaN\<close> (\<open>None\<close>); the strings
  the guard converts, host names that match the dotted-quad expression and the
  resolver's A records, have digits only.
\<close>

definition number_of_part :: "string \<Rightarrow> int option" where
  "number_of_part s = (if list_all is_digit s then Some (read_int s) else None)"

text \<open>
  \<^verbatim>\<open>ipToNumber\<close>: the shifts and the bitwise or work on 32-bit integers, and
  \<^verbatim>\<open>>>> 0\<close> reads the result as unsigned.
\<close>

definition ipToNumber :: "string \<Rightarrow> int" where
  "ipToNumber ip =
     (case map number_of_part (split CHR ''.'' ip) of
        [Some p0, Some p1, Some p2, Some p3] \<Rightarrow>
          if list_ex (\<lambda>p. p < 0 \<or> p > 255) [p0, p1, p2, p3] then -1
          else uint (push_bit 24 (word_of_int p0 :: 32 word) OR push_bit 16 (word_of_int p1)
                     OR push_bit 8 (word_of_int p2) OR word_of_int p3)
      | _ \<Rightarrow> -1)"

definition BLOCKED_IP_RANGES :: "(int \<times> int) list" where
  "BLOCKED_IP_RANGES =
     [(ipToNumber ''127.0.0.0'', ipToNumber ''127.255.255.255''),
      (ipToNumber ''10.0.0.0'', ipToNumber ''10.255.255.255''),
      (ipToNumber ''172.16.0.0'', ipToNumber ''172.31.255.255''),
      (ipToNumber ''192.168.0.0'', ipToNumber ''192.168.255.255''),
      (ipToNumber ''169.254.0.0'', ipToNumber ''169.254.255.255''),
      (ipToNumber ''255.255.255.255'', ipToNumber ''255.255.255.255''),
      (ipToNumber ''0.0.0.0'', ipToNumber ''0.255.255.255'')]"

definition BLOCKED_HOSTS :: "string list" where
  "BLOCKED_HOSTS =
     [''localhost'', ''localhost.localdomain'', ''metadata.google.internal'',
      ''metadata.gke.internal'']"

definition BLOCKED_METADATA_IPS :: "string list" where
  "BLOCKED_METADATA_IPS = [''169.254.169.254'', ''fd00:ec2::254'']"

definition isPrivateIP :: "string \<Rightarrow> bool" where
  "isPrivateIP ip =
     (let ipNum = ipToNumber ip in
      if ipNum = -1 then True
      else if list_ex (\<lambda>(start, end). ipNum \<ge> start \<and> ipNum \<le> end) BLOCKED_IP_RANGES
      then True
      else ip \<in> set BLOCKED_METADATA_IPS)"

text \<open>The expression \<^verbatim>\<open>/^(\d{1,3}\.){3}\d{1,3}$/\<close>.\<close>

definition is_dotted_quad :: "string \<Rightarrow> bool" where
  "is_dotted_quad s =
     (let parts = split CHR ''.'' s in
      length parts = 4 \<and>
      list_all (\<lambda>p. 1 \<le> length p \<and> length p \<le> 3 \<and> list_all is_digit p) parts)"

definition isBlockedHost :: "string \<Rightarrow> bool" where
  "isBlockedHost h =
     (let normalized = toLowerCase h in
      if normalized \<in> set BLOCKED_HOSTS then True
      else if is_dotted_quad normalized \<and> isPrivateIP normalized then True
      else if normalized = ''::1'' \<or> normalized = ''[::1]'' then True
      else False)"

record SSRFValidationResult =
  safe :: bool
  reason :: "string option"
  resolvedIP :: "string option"

definition unsafe :: "string \<Rightarrow> SSRFValidationResult" where
  "unsafe msg = \<lparr>safe = False, reason = Some msg, resolvedIP = None\<rparr>"

text \<open>\<^verbatim>\<open>s.replace(':', '')\<close>: the first occurrence only.\<close>

fun remove_first :: "char \<Rightarrow> string \<Rightarrow> string" where
  "remove_first c [] = []"
| "remove_first c (x # xs) = (if x = c then xs else x # remove_first c xs)"

text \<open>The loop over the resolved addresses: the first private one ends it.\<close>

fun first_private :: "string list \<Rightarrow> string option" where
  "first_private [] = None"
| "first_private (ip # ips) = (if isPrivateIP ip then Some ip else first_private ips)"

text \<open>
  \<^verbatim>\<open>validateUrlForSSRF\<close>. The resolver \<^verbatim>\<open>dns.resolve4\<close> is a parameter: \<open>Inl\<close> is
  the message of the error it throws, \<open>Inr\<close> its A records.
\<close>

definition validateUrlForSSRF ::
  "platform \<Rightarrow> (string \<Rightarrow> string + string list) \<Rightarrow> string \<Rightarrow> string list \<Rightarrow> SSRFValidationResult" where
  "validateUrlForSSRF pf dnsResolve urlString allowedProtocols =
     (case urlParse pf urlString of
        None \<Rightarrow> unsafe ''Invalid URL format''
      | Some parsedUrl \<Rightarrow>
          let proto = remove_first CHR '':'' (protocol parsedUrl) in
          if proto \<notin> set allowedProtocols
          then unsafe (''Protocol '' @ [CHR 0x27] @ proto @ [CHR 0x27] @ '' not allowed. Allowed: ''
                       @ join '', '' allowedProtocols)
          else
            let h = hostname parsedUrl in
            if isBlockedHost h
            then unsafe (''Hostname '' @ [CHR 0x27] @ h @ [CHR 0x27]
                         @ '' is blocked (internal/localhost)'')
            else if is_dotted_quad h
            then (if isPrivateIP h
                  then unsafe (''IP '' @ [CHR 0x27] @ h @ [CHR 0x27]
                               @ '' is in a private/reserved range'')
                  else \<lparr>safe = True, reason = None, resolvedIP = Some h\<rparr>)
            else
              (case dnsResolve h of
                 Inl message \<Rightarrow> unsafe (''DNS resolution failed: '' @ message)
               | Inr addresses \<Rightarrow>
                   if addresses = []
                   then unsafe (''Could not resolve hostname '' @ [CHR 0x27] @ h @ [CHR 0x27])
                   else
                     (case first_private addresses of
                        Some ip \<Rightarrow>
                          unsafe (''Resolved IP '' @ [CHR 0x27] @ ip @ [CHR 0x27]
                                  @ '' is in a private/reserved range (possible DNS rebinding)'')
                      | None \<Rightarrow>
                          \<lparr>safe = True, reason = None, resolvedIP = Some (hd addresses)\<rparr>)))"

text \<open>
  The specification's blocked ranges, on the four octets of an IPv4 address: loopback
  127/8, private 10/8, 172.16/12 and 192.168/16, link-local 169.254/16 (which holds the
  metadata address 169.254.169.254), current-network 0/8 and the broadcast address.
\<close>

definition spec_blocked_ipv4 :: "int \<Rightarrow> int \<Rightarrow> int \<Rightarrow> int \<Rightarrow> bool" where
  "spec_blocked_ipv4 a b c d =
     (a = 127 \<or> a = 10 \<or> (a = 172 \<and> 16 \<le> b \<and> b \<le> 31) \<or> (a = 192 \<and> b = 168) \<or>
      (a = 169 \<and> b = 254) \<or> a = 0 \<or> (a = 255 \<and> b = 255 \<and> c = 255 \<and> d = 255))"

text \<open>The octets of a literal IPv4 address in dotted-decimal form.\<close>

definition ipv4_octets :: "string \<Rightarrow> (int \<times> int \<times> int \<times> int) option" where
  "ipv4_octets s =
     (case split CHR ''.'' s of
        [p0, p1, p2, p3] \<Rightarrow>
          if list_all (\<lambda>p. 1 \<le> length p \<and> length p \<le> 3 \<and> list_all is_digit p \<and> read_int p \<le> 255)
               [p0, p1, p2, p3]
          then Some (read_int p0, read_int p1, read_int p2, read_int p3)
          else None
      | _ \<Rightarrow> None)"

definition spec_blocked_address :: "string \<Rightarrow> bool" where
  "spec_blocked_address s =
     (case ipv4_octets s of
        None \<Rightarrow> False
      | Some (a, b, c, d) \<Rightarrow> spec_blocked_ipv4 a b c d)"

section \<open>Process configuration (config/index.ts)\<close>

record Config =
  maxFileSizeBytes :: int
  maxTotalSizeBytes :: int
  defaultUserAgent :: string
  jobsDir :: string
  allowedProtocols :: "string list"

text \<open>The configuration when no environment variable is set.\<close>

definition defaultConfig :: Config where
  "defaultConfig =
     \<lparr>maxFileSizeBytes = 100 * 1024 * 1024,
      maxTotalSizeBytes = 5 * 1024 * 1024 * 1024,
      defaultUserAgent = ''Mozilla/5.0 (Macintosh; Intel Mac OS X 10_15_7) AppleWebKit/537.36 (KHTML, like Gecko) Chrome/120.0.0.0 Safari/537.36'',
      jobsDir = ''./jobs'',
      allowedProtocols = [''http'', ''https'']\<rparr>"

section \<open>Storage (storage/filesystem.ts)\<close>

text \<open>
  The platform's \<^verbatim>\<open>path.join\<close> and \<^verbatim>\<open>path.dirname\<close> on POSIX paths. \<^verbatim>\<open>join\<close> normalises:
  empty and \<^verbatim>\<open>.\<close> segments go, \<^verbatim>\<open>..\<close> removes the segment before it.
\<close>

fun normalize_segments :: "bool \<Rightarrow> string list \<Rightarrow> string list \<Rightarrow> string list" where
  "normalize_segments absolute acc [] = acc"
| "normalize_segments absolute acc (seg # segs) =
     (if seg = [] \<or> seg = ''.'' then normalize_segments absolute acc segs
      else if seg = ''..''
      then (if acc \<noteq> [] \<and> last acc \<noteq> ''..'' then normalize_segments absolute (butlast acc) segs
            else if absolute then normalize_segments absolute acc segs
            else normalize_segments absolute (acc @ [seg]) segs)
      else normalize_segments absolute (acc @ [seg]) segs)"

definition path_normalize :: "string \<Rightarrow> string" where
  "path_normalize p =
     (if p = [] then ''.''
      else
        let absolute = (hd p = CHR ''/'');
            trailing = (last p = CHR ''/'');
            body = join ''/'' (normalize_segments absolute [] (split CHR ''/'' p))
        in if body = [] then (if absolute then ''/'' else if trailing then ''./'' else ''.'')
           else (if absolute then ''/'' else []) @ body @ (if trailing then ''/'' else []))"

definition path_join :: "string \<Rightarrow> string \<Rightarrow> string" where
  "path_join a b =
     (if a = [] then path_normalize b
      else if b = [] then path_normalize a
      else path_normalize (a @ ''/'' @ b))"

definition path_dirname :: "string \<Rightarrow> string" where
  "path_dirname p =
     (let q = rev (dropWhile (\<lambda>c. c = CHR ''/'') (rev p)) in
      if q = [] then (if p = [] then ''.'' else ''/'')
      else if CHR ''/'' \<notin> set q then ''.''
      else let d = rev (dropWhile (\<lambda>c. c = CHR ''/'')
                          (dropWhile (\<lambda>c. c \<noteq> CHR ''/'') (rev q)))
           in if d = [] then ''/'' else d)"

text \<open>\<^verbatim>\<open>isPathWithinBase\<close> (security/validation.ts).\<close>

definition backslashes_to_slashes :: "string \<Rightarrow> string" where
  "backslashes_to_slashes s = map (\<lambda>c. if c = CHR 0x5C then CHR ''/'' else c) s"

definition isPathWithinBase :: "string \<Rightarrow> string \<Rightarrow> bool" where
  "isPathWithinBase basePath targetPath =
     (let normalizedBase =
            rev (dropWhile (\<lambda>c. c = CHR ''/'') (rev (backslashes_to_slashes basePath)));
          normalizedTarget = backslashes_to_slashes targetPath
      in startsWith normalizedTarget (normalizedBase @ ''/'') \<or> normalizedTarget = normalizedBase)"

record StorageStats =
  filesWritten :: int
  totalBytes :: int
  directories :: int

text \<open>
  The storage of a job. \<open>disk\<close> is the part of the file system under the job: the files
  by their full path, in creation order.
\<close>

record FileStorage =
  baseDir :: string
  stats :: StorageStats
  createdDirs :: "string list"
  disk :: "(string \<times> string) list"

text \<open>\<^verbatim>\<open>path.resolve(config.jobsDir, jobId)\<close> from the working directory \<open>cwd\<close>.\<close>

definition FileStorage_new :: "Config \<Rightarrow> string \<Rightarrow> string \<Rightarrow> FileStorage" where
  "FileStorage_new cfg cwd jobId =
     \<lparr>baseDir = (let p = path_join (path_join cwd (jobsDir cfg)) jobId in
                  if p \<noteq> ''/'' \<and> last p = CHR ''/'' then butlast p else p),
      stats = \<lparr>filesWritten = 0, totalBytes = 0, directories = 0\<rparr>,
      createdDirs = [], disk = []\<rparr>"

text \<open>
  An error of the file system: its \<^verbatim>\<open>message\<close> and its text, \<^verbatim>\<open>String(error)\<close>.
\<close>

record FsError =
  fs_message :: string
  fs_text :: string

text \<open>
  The file system under the storage, as far as its calls can fail: for a path, the error
  that \<^verbatim>\<open>fs.mkdir\<close> (recursive) throws for that directory, that \<^verbatim>\<open>fs.writeFile\<close> throws
  for that file, and that the walk of \<^verbatim>\<open>fs.readdir\<close> over the tree under that directory
  throws, or \<open>None\<close> where the call succeeds.
\<close>

record FileSystem =
  mkdirError :: "string \<Rightarrow> FsError option"
  writeFileError :: "string \<Rightarrow> FsError option"
  readdirError :: "string \<Rightarrow> FsError option"

text \<open>\<^verbatim>\<open>init\<close>. \<open>Inl\<close> is the message of the error thrown.\<close>

definition storage_init :: "FileSystem \<Rightarrow> FileStorage \<Rightarrow> string + FileStorage" where
  "storage_init fs st =
     (case mkdirError fs (baseDir st) of
        Some err \<Rightarrow> Inl (''Failed to create job directory: '' @ fs_text err)
      | None \<Rightarrow>
          Inr (st\<lparr>createdDirs := (if baseDir st \<in> set (createdDirs st) then createdDirs st
                                     else createdDirs st @ [baseDir st])\<rparr>))"

text \<open>
  \<^verbatim>\<open>writeFile\<close>, one call from its start to its end, with no other call on the same storage
  in between (the method awaits the file system between its test of the total and its
  update of it). \<open>Inl\<close> is the message of the error thrown, with the storage as the call
  leaves it: a directory made before a failed write stays counted. The size of the content
  is its length in bytes.
\<close>

definition writeFile ::
  "FileSystem \<Rightarrow> Config \<Rightarrow> FileStorage \<Rightarrow> string \<Rightarrow> string \<Rightarrow> (string \<times> FileStorage) + FileStorage" where
  "writeFile fs cfg st relativePath content =
     (let fullPath = path_join (baseDir st) relativePath in
      if \<not> isPathWithinBase (baseDir st) fullPath
      then Inl (''Path traversal attempt detected: '' @ relativePath, st)
      else
        let contentSize = int (length content) in
        if totalBytes (stats st) + contentSize > maxTotalSizeBytes cfg
        then Inl (''Total size limit exceeded ('' @ show_int (maxTotalSizeBytes cfg) @ '' bytes)'', st)
        else
          let dir = path_dirname fullPath;
              fresh = (dir \<notin> set (createdDirs st))
          in case (if fresh then mkdirError fs dir else None) of
               Some err \<Rightarrow> Inl (fs_message err, st)
             | None \<Rightarrow>
                 let st1 = st\<lparr>createdDirs := (if fresh then createdDirs st @ [dir] else createdDirs st),
                               stats := (stats st)\<lparr>directories :=
                                          directories (stats st) + (if fresh then 1 else 0)\<rparr>\<rparr>
                 in case writeFileError fs fullPath of
                      Some err \<Rightarrow> Inl (fs_message err, st1)
                    | None \<Rightarrow>
                        Inr (st1\<lparr>disk := map_set fullPath content (disk st1),
                                  stats := (stats st1)\<lparr>filesWritten := filesWritten (stats st1) + 1,
                                             totalBytes := totalBytes (stats st1) + contentSize\<rparr>\<rparr>))"

definition readFile :: "FileStorage \<Rightarrow> string \<Rightarrow> string + string" where
  "readFile st relativePath =
     (let fullPath = path_join (baseDir st) relativePath in
      if \<not> isPathWithinBase (baseDir st) fullPath
      then Inl (''Path traversal attempt detected: '' @ relativePath)
      else (case map_of (disk st) fullPath of
              None \<Rightarrow> Inl (''ENOENT: no such file or directory, open '' @ fullPath)
            | Some content \<Rightarrow> Inr content))"

text \<open>
  \<^verbatim>\<open>listFiles\<close>: the files under the base directory, by their relative paths, or the
  message of the error that the walk throws.
\<close>

definition listFiles :: "FileSystem \<Rightarrow> FileStorage \<Rightarrow> string + string list" where
  "listFiles fs st =
     (case readdirError fs (baseDir st) of
        Some err \<Rightarrow> Inl (fs_message err)
      | None \<Rightarrow>
          Inr (map (\<lambda>(p, c). drop (length (baseDir st) + 1) p)
                 (filter (\<lambda>(p, c). startsWith p (baseDir st @ ''/'')) (disk st))))"

section \<open>Sanitising names (security/validation.ts)\<close>

text \<open>\<^verbatim>\<open>s.slice(start, end)\<close>; a negative index counts from the end of the string.\<close>

definition js_index :: "string \<Rightarrow> int \<Rightarrow> nat" where
  "js_index s i = (if i < 0 then nat (int (length s) + i) else min (nat i) (length s))"

definition str_slice :: "string \<Rightarrow> int \<Rightarrow> int \<Rightarrow> string" where
  "str_slice s start end = drop (js_index s start) (take (js_index s end) s)"

definition str_slice_from :: "string \<Rightarrow> int \<Rightarrow> string" where
  "str_slice_from s start = drop (js_index s start) s"

text \<open>\<^verbatim>\<open>s.replace(/\.\./g, '_')\<close>: each pair of dots, from the left.\<close>

fun replace_dotdot :: "string \<Rightarrow> string" where
  "replace_dotdot (a # b # rest) =
     (if a = CHR ''.'' \<and> b = CHR ''.'' then CHR ''_'' # replace_dotdot rest
      else a # replace_dotdot (b # rest))"
| "replace_dotdot s = s"

text \<open>The class \<^verbatim>\<open>[\s.]\<close>, for the ASCII white space, and the class of illegal characters.\<close>

definition is_space_or_dot :: "char \<Rightarrow> bool" where
  "is_space_or_dot c =
     (c = CHR ''.'' \<or> c = CHR '' '' \<or> (CHR 0x09 \<le> c \<and> c \<le> CHR 0x0D))"

definition is_illegal :: "char \<Rightarrow> bool" where
  "is_illegal c =
     (c \<le> CHR 0x1F \<or>
      c \<in> set [CHR ''<'', CHR ''>'', CHR '':'', CHR 0x22, CHR ''/'', CHR 0x5C, CHR ''|'', CHR ''?'',
                CHR ''*''])"

definition sanitizeFilename :: "string \<Rightarrow> string" where
  "sanitizeFilename filename =
     (let s1 = replace_dotdot filename;
          s2 = rev (dropWhile is_space_or_dot (rev (dropWhile is_space_or_dot s1)));
          s3 = map (\<lambda>c. if is_illegal c then CHR ''_'' else c) s2;
          s4 = (if length s3 > 200
                then let ext = str_slice_from s3 (lastIndexOf s3 CHR ''.'');
                         base = str_slice s3 0 (200 - int (length ext))
                     in base @ ext
                else s3)
      in if s4 = [] then ''unnamed'' else s4)"

text \<open>\<^verbatim>\<open>path.split(/[/\\]/)\<close>\<close>

definition split_path :: "string \<Rightarrow> string list" where
  "split_path p = split CHR ''/'' (backslashes_to_slashes p)"

definition sanitizePath :: "string \<Rightarrow> string" where
  "sanitizePath p =
     join ''/'' (filter (\<lambda>part. part \<noteq> [] \<and> part \<noteq> ''.'' \<and> part \<noteq> ''..'')
                   (map sanitizeFilename (split_path p)))"

section \<open>The path registry (crawler/rewriter.ts)\<close>

record LinkRewriter =
  urlToPath :: "(string \<times> string) list"
  pathToUrl :: "(string \<times> string) list"
  usedPaths :: "string list"

definition LinkRewriter_new :: LinkRewriter where
  "LinkRewriter_new = \<lparr>urlToPath = [], pathToUrl = [], usedPaths = []\<rparr>"

text \<open>\<^verbatim>\<open>Set.add\<close>\<close>

definition set_add :: "'a \<Rightarrow> 'a list \<Rightarrow> 'a list" where
  "set_add x xs = (if x \<in> set xs then xs else xs @ [x])"

text \<open>
  \<^verbatim>\<open>generateLocalPath\<close>. \<open>md5\<close> is
  \<^verbatim>\<open>createHash('md5').update(s).digest('hex')\<close>; \<open>Inl\<close> is the \<^verbatim>\<open>TypeError\<close> of the
  URL constructor.
\<close>

definition safeSegment :: "(string \<Rightarrow> string) \<Rightarrow> string \<Rightarrow> string" where
  "safeSegment md5 segment =
     (if length segment > 200
      then let ext = str_slice_from segment (lastIndexOf segment CHR ''.'');
               base = str_slice segment 0 150;
               h = str_slice (md5 segment) 0 8
           in sanitizeFilename (base @ ''_'' @ h @ ext)
      else sanitizeFilename segment)"

definition generateLocalPath :: "platform \<Rightarrow> (string \<Rightarrow> string) \<Rightarrow> string \<Rightarrow> string + string" where
  "generateLocalPath pf md5 urlString =
     (case urlParse pf urlString of
        None \<Rightarrow> Inl ''Invalid URL''
      | Some u \<Rightarrow>
          let domain = sanitizeFilename (hostname u);
              p0 = pathname u;
              p1 = (if p0 = ''/'' \<or> p0 = [] then ''/index.html'' else p0);
              p2 = (if endsWith p1 ''/'' then p1 @ ''index.html'' else p1);
              lastSegment = last (split CHR ''/'' p2);
              p3 = (if CHR ''.'' \<notin> set lastSegment then p2 @ ''.html'' else p2);
              p4 = (if search u \<noteq> []
                    then let queryHash = ''_'' @ str_slice (md5 (search u)) 0 8;
                             lastDot = lastIndexOf p3 CHR ''.''
                         in if lastDot \<noteq> -1
                            then str_slice p3 0 lastDot @ queryHash @ str_slice_from p3 lastDot
                            else p3 @ queryHash
                    else p3);
              segments = filter (\<lambda>s. s \<noteq> []) (split CHR ''/'' p4);
              safeSegments = map (safeSegment md5) segments
          in Inr (sanitizePath (join ''/'' (domain # safeSegments))))"

text \<open>
  \<^verbatim>\<open>ensureUniquePath\<close>: the numbered names \<^verbatim>\<open>base_1ext\<close>, \<^verbatim>\<open>base_2ext\<close>, ... are tried
  in turn; when the counter passes 10000 the name built from the hash of the path and the
  clock is returned as it is.
\<close>

definition numbered :: "string \<Rightarrow> string \<Rightarrow> int \<Rightarrow> string" where
  "numbered base ext counter = base @ ''_'' @ show_int counter @ ext"

function unique_loop ::
  "string list \<Rightarrow> string \<Rightarrow> string \<Rightarrow> string \<Rightarrow> int \<Rightarrow> string" where
  "unique_loop used base ext fallback counter =
     (if numbered base ext counter \<in> set used
      then (if counter + 1 > 10000 then fallback
            else unique_loop used base ext fallback (counter + 1))
      else numbered base ext counter)"
  by pat_completeness auto
termination
  by (relation "measure (\<lambda>(used, base, ext, fallback, counter). nat (10001 - counter))") auto

definition ensureUniquePath ::
  "(string \<Rightarrow> string) \<Rightarrow> int \<Rightarrow> LinkRewriter \<Rightarrow> string \<Rightarrow> string" where
  "ensureUniquePath md5 now r p =
     (if p \<notin> set (usedPaths r) then p
      else
        let lastDot = lastIndexOf p CHR ''.'';
            base = (if lastDot \<noteq> -1 then str_slice p 0 lastDot else p);
            ext = (if lastDot \<noteq> -1 then str_slice_from p lastDot else []);
            fallback = base @ ''_'' @ str_slice (md5 (p @ show_int now)) 0 8 @ ext
        in unique_loop (usedPaths r) base ext fallback 1)"

text \<open>The second half of \<^verbatim>\<open>registerUrl\<close>: a URL with no path yet.\<close>

definition register_new ::
  "platform \<Rightarrow> (string \<Rightarrow> string) \<Rightarrow> int \<Rightarrow> LinkRewriter \<Rightarrow> string \<Rightarrow> string \<Rightarrow> string + (string \<times> LinkRewriter)" where
  "register_new pf md5 now r u normalized =
     (case generateLocalPath pf md5 u of
        Inl e \<Rightarrow> Inl e
      | Inr localPath \<Rightarrow>
          let uniquePath = ensureUniquePath md5 now r localPath
          in Inr (uniquePath,
                  \<lparr>urlToPath = map_set normalized uniquePath (urlToPath r),
                   pathToUrl = map_set uniquePath normalized (pathToUrl r),
                   usedPaths = set_add uniquePath (usedPaths r)\<rparr>))"

text \<open>
  \<^verbatim>\<open>registerUrl\<close>: the path of the URL and the registry after the call, or the error
  thrown. \<open>now\<close> is the clock at the call.
\<close>

definition registerUrl ::
  "platform \<Rightarrow> (string \<Rightarrow> string) \<Rightarrow> int \<Rightarrow> LinkRewriter \<Rightarrow> string \<Rightarrow> string + (string \<times> LinkRewriter)" where
  "registerUrl pf md5 now r u =
     (case normalizeUrl pf u of
        None \<Rightarrow> Inl (''Invalid URL: '' @ u)
      | Some normalized \<Rightarrow>
          (case map_of (urlToPath r) normalized of
             Some existing \<Rightarrow>
               if existing \<noteq> [] then Inr (existing, r)
               else register_new pf md5 now r u normalized
           | None \<Rightarrow> register_new pf md5 now r u normalized))"

definition getMappings :: "LinkRewriter \<Rightarrow> (string \<times> string) list" where
  "getMappings r = urlToPath r"

text \<open>
  The base and the extension that \<^verbatim>\<open>ensureUniquePath\<close> splits a path into, and the state
  in which its loop runs to the safety limit: the path and all of its numbered names
  \<^verbatim>\<open>base_1ext\<close>, ..., \<^verbatim>\<open>base_10000ext\<close> are in use.
\<close>

definition path_base :: "string \<Rightarrow> string" where
  "path_base p =
     (let lastDot = lastIndexOf p CHR ''.'' in if lastDot \<noteq> -1 then str_slice p 0 lastDot else p)"

definition path_ext :: "string \<Rightarrow> string" where
  "path_ext p =
     (let lastDot = lastIndexOf p CHR ''.'' in if lastDot \<noteq> -1 then str_slice_from p lastDot else [])"

definition all_names_taken :: "LinkRewriter \<Rightarrow> string \<Rightarrow> bool" where
  "all_names_taken r p =
     (p \<in> set (usedPaths r) \<and>
      list_all (\<lambda>c. numbered (path_base p) (path_ext p) c \<in> set (usedPaths r)) [1..10000])"

section \<open>The fetcher (crawler/fetcher.ts)\<close>

record FetchResult =
  fr_url :: string
  finalUrl :: string
  fr_status :: int
  fr_headers :: "(string \<times> string) list"
  contentType :: string
  contentLength :: int
  body :: string
  isRedirect :: bool
  redirectChain :: "string list"

record FetchError =
  fe_url :: string
  fe_error :: string
  code :: "string option"
  retryable :: bool

datatype FetchOutcome = Success FetchResult | Failure FetchError

definition USER_AGENTS :: "string list" where
  "USER_AGENTS =
     [''Mozilla/5.0 (Windows NT 10.0; Win64; x64) AppleWebKit/537.36 (KHTML, like Gecko) Chrome/120.0.0.0 Safari/537.36'',
      ''Mozilla/5.0 (Windows NT 10.0; Win64; x64) AppleWebKit/537.36 (KHTML, like Gecko) Chrome/119.0.0.0 Safari/537.36'',
      ''Mozilla/5.0 (Macintosh; Intel Mac OS X 10_15_7) AppleWebKit/537.36 (KHTML, like Gecko) Chrome/120.0.0.0 Safari/537.36'',
      ''Mozilla/5.0 (Macintosh; Intel Mac OS X 10_15_7) AppleWebKit/537.36 (KHTML, like Gecko) Chrome/119.0.0.0 Safari/537.36'',
      ''Mozilla/5.0 (Windows NT 10.0; Win64; x64; rv:121.0) Gecko/20100101 Firefox/121.0'',
      ''Mozilla/5.0 (Windows NT 10.0; Win64; x64; rv:120.0) Gecko/20100101 Firefox/120.0'',
      ''Mozilla/5.0 (Macintosh; Intel Mac OS X 10.15; rv:121.0) Gecko/20100101 Firefox/121.0'',
      ''Mozilla/5.0 (Macintosh; Intel Mac OS X 10_15_7) AppleWebKit/605.1.15 (KHTML, like Gecko) Version/17.2 Safari/605.1.15'',
      ''Mozilla/5.0 (Windows NT 10.0; Win64; x64) AppleWebKit/537.36 (KHTML, like Gecko) Chrome/120.0.0.0 Safari/537.36 Edg/120.0.0.0'']"

definition ACCEPT_HEADERS :: "string \<Rightarrow> string" where
  "ACCEPT_HEADERS k =
     (if k = ''html'' then ''text/html,application/xhtml+xml,application/xml;q=0.9,image/avif,image/webp,image/apng,*/*;q=0.8,application/signed-exchange;v=b3;q=0.7''
      else if k = ''css'' then ''text/css,*/*;q=0.1''
      else if k = ''js'' then ''*/*''
      else if k = ''image'' then ''image/avif,image/webp,image/apng,image/svg+xml,image/*,*/*;q=0.8''
      else if k = ''font'' then ''application/font-woff2;q=1.0,application/font-woff;q=0.9,*/*;q=0.8''
      else ''*/*'')"

text \<open>
  What the fetcher does to the world, in order: the requests it sends (URL and headers),
  the delays it waits (milliseconds) and the warnings it logs.
\<close>

datatype FetchEvent =
  Requested string "(string \<times> string) list"
| Delayed int
| Warned string

text \<open>A response of the network: status, headers (lower-case names) and body, if any.\<close>

record HttpResponse =
  r_status :: int
  r_headers :: "(string \<times> string) list"
  r_body :: "string option"

datatype NetResult = Response HttpResponse | NetError string

text \<open>
  The world outside the process. \<open>net n url headers\<close> answers the \<open>n\<close>-th request of the
  fetcher (\<open>NetError\<close> is the message of the error \<^verbatim>\<open>fetch\<close> throws, a time-out included);
  \<open>resolve4\<close> is the resolver; \<open>random n\<close> is the \<open>n\<close>-th value of \<^verbatim>\<open>Math.random()\<close>, as
  the numerator of a fraction of \<open>2 ^ 53\<close>; \<open>dateParse\<close> is \<^verbatim>\<open>Date.parse\<close>; \<open>plainGet\<close> answers
  the request for \<^verbatim>\<open>robots.txt\<close>, which does not go through the fetcher; \<open>files\<close> is the
  file system.
\<close>

record world =
  net :: "nat \<Rightarrow> string \<Rightarrow> (string \<times> string) list \<Rightarrow> NetResult"
  resolve4 :: "string \<Rightarrow> string + string list"
  random :: "nat \<Rightarrow> int"
  dateParse :: "string \<Rightarrow> int option"
  plainGet :: "string \<Rightarrow> NetResult"
  files :: FileSystem

text \<open>
  The fetcher. \<open>clock\<close> is \<^verbatim>\<open>Date.now()\<close>: time passes in the delays. \<open>draws\<close> counts
  the calls of \<^verbatim>\<open>Math.random()\<close>. The cookie jar and the task pool are left out: the first
  adds a header, the second orders the fetches that are in flight together, and the model
  follows one fetch from its start to its end.
\<close>

record Fetcher =
  f_options :: CrawlOptions
  f_aborted :: bool
  f_userAgent :: string
  userAgentIndex :: int
  rateLimitedUntil :: "(string \<times> int) list"
  baseDelayMs :: int
  f_seedUrl :: string
  clock :: int
  draws :: nat
  events :: "FetchEvent list"

definition next_random :: "world \<Rightarrow> Fetcher \<Rightarrow> int \<times> Fetcher" where
  "next_random w f = (random w (draws f), f\<lparr>draws := Suc (draws f)\<rparr>)"

text \<open>\<^verbatim>\<open>Math.floor(x * (0.5 + r))\<close> and \<^verbatim>\<open>Math.floor(r * n)\<close> for \<open>r\<close> a fraction of \<open>2 ^ 53\<close>.\<close>

definition jitter_of :: "int \<Rightarrow> int \<Rightarrow> int" where
  "jitter_of baseDelay r = (baseDelay * (2 ^ 52 + r)) div 2 ^ 53"

definition getRandomUserAgent :: "world \<Rightarrow> Fetcher \<Rightarrow> string \<times> Fetcher" where
  "getRandomUserAgent w f =
     (case next_random w f of
        (r, f') \<Rightarrow> (USER_AGENTS ! nat ((r * int (length USER_AGENTS)) div 2 ^ 53), f'))"

definition Fetcher_new :: "world \<Rightarrow> int \<Rightarrow> CrawlOptions \<Rightarrow> Fetcher" where
  "Fetcher_new w now opts =
     (let f0 = \<lparr>f_options = opts, f_aborted = False, f_userAgent = [], userAgentIndex = 0,
                rateLimitedUntil = [], baseDelayMs = delayMs opts, f_seedUrl = opt_url opts,
                clock = now, draws = 0, events = []\<rparr>
      in case userAgent opts of
           Some ua \<Rightarrow> if ua \<noteq> [] then f0\<lparr>f_userAgent := ua\<rparr>
                      else (case getRandomUserAgent w f0 of (ua', f1) \<Rightarrow> f1\<lparr>f_userAgent := ua'\<rparr>)
         | None \<Rightarrow> (case getRandomUserAgent w f0 of (ua', f1) \<Rightarrow> f1\<lparr>f_userAgent := ua'\<rparr>))"

definition rotateUserAgent :: "Fetcher \<Rightarrow> Fetcher" where
  "rotateUserAgent f =
     (let i = (userAgentIndex f + 1) mod int (length USER_AGENTS)
      in f\<lparr>userAgentIndex := i, f_userAgent := USER_AGENTS ! nat i\<rparr>)"

definition fetcher_getDomain :: "platform \<Rightarrow> string \<Rightarrow> string" where
  "fetcher_getDomain pf u =
     (case urlParse pf u of None \<Rightarrow> ''unknown'' | Some parsed \<Rightarrow> hostname parsed)"

fun map_delete :: "'k \<Rightarrow> ('k \<times> 'v) list \<Rightarrow> ('k \<times> 'v) list" where
  "map_delete k [] = []"
| "map_delete k ((k', v) # rest) = (if k' = k then rest else (k', v) # map_delete k rest)"

definition isRateLimited :: "platform \<Rightarrow> Fetcher \<Rightarrow> string \<Rightarrow> bool \<times> Fetcher" where
  "isRateLimited pf f u =
     (let domain = fetcher_getDomain pf u in
      case map_of (rateLimitedUntil f) domain of
        None \<Rightarrow> (False, f)
      | Some until \<Rightarrow>
          if until = 0 then (False, f)
          else if clock f \<ge> until
          then (False, f\<lparr>rateLimitedUntil := map_delete domain (rateLimitedUntil f)\<rparr>)
          else (True, f))"

text \<open>The rate limit is kept in milliseconds: \<^verbatim>\<open>Date.now() + retryAfterSeconds * 1000\<close>.\<close>

definition setRateLimit :: "platform \<Rightarrow> Fetcher \<Rightarrow> string \<Rightarrow> int \<Rightarrow> Fetcher" where
  "setRateLimit pf f u retryAfterMs =
     f\<lparr>rateLimitedUntil :=
         map_set (fetcher_getDomain pf u) (clock f + retryAfterMs) (rateLimitedUntil f)\<rparr>"

definition addJitter :: "world \<Rightarrow> Fetcher \<Rightarrow> int \<Rightarrow> int \<times> Fetcher" where
  "addJitter w f baseDelay =
     (case next_random w f of (r, f') \<Rightarrow> (jitter_of baseDelay r, f'))"

definition delay :: "Fetcher \<Rightarrow> int \<Rightarrow> Fetcher" where
  "delay f ms = f\<lparr>clock := clock f + max ms 0, events := events f @ [Delayed ms]\<rparr>"

definition warn :: "Fetcher \<Rightarrow> string \<Rightarrow> Fetcher" where
  "warn f msg = f\<lparr>events := events f @ [Warned msg]\<rparr>"

text \<open>\<^verbatim>\<open>url.split('.').pop()?.toLowerCase().split('?')[0] || ''\<close>\<close>

definition getAcceptHeader :: "string \<Rightarrow> string" where
  "getAcceptHeader u =
     (let ext = hd (split CHR ''?'' (toLowerCase (last (split CHR ''.'' u)))) in
      if ext \<in> set [''html'', ''htm'', ''php'', ''asp'', ''aspx'', ''jsp''] \<or> ext = []
      then ACCEPT_HEADERS ''html''
      else if ext = ''css'' then ACCEPT_HEADERS ''css''
      else if ext \<in> set [''js'', ''mjs''] then ACCEPT_HEADERS ''js''
      else if ext \<in> set [''jpg'', ''jpeg'', ''png'', ''gif'', ''webp'', ''svg'', ''ico'', ''avif'']
      then ACCEPT_HEADERS ''image''
      else if ext \<in> set [''woff'', ''woff2'', ''ttf'', ''otf'', ''eot''] then ACCEPT_HEADERS ''font''
      else ACCEPT_HEADERS ''default'')"

definition the_default :: "'a \<Rightarrow> 'a option \<Rightarrow> 'a" where
  "the_default d x = (case x of None \<Rightarrow> d | Some v \<Rightarrow> v)"

definition assign_headers :: "(string \<times> string) list \<Rightarrow> (string \<times> string) list \<Rightarrow> (string \<times> string) list" where
  "assign_headers hs extra = foldl (\<lambda>acc (k, v). map_set k v acc) hs extra"

definition buildHeaders :: "Fetcher \<Rightarrow> string \<Rightarrow> string option \<Rightarrow> (string \<times> string) list" where
  "buildHeaders f u referer =
     (let has_referer = (case referer of None \<Rightarrow> False | Some r \<Rightarrow> r \<noteq> []);
          hs = [(''User-Agent'', f_userAgent f),
                (''Accept'', getAcceptHeader u),
                (''Accept-Language'', ''en-US,en;q=0.9,es;q=0.8,fr;q=0.7''),
                (''Accept-Encoding'', ''gzip, deflate, br''),
                (''Connection'', ''keep-alive''),
                (''Upgrade-Insecure-Requests'', ''1''),
                (''Cache-Control'', ''max-age=0''),
                (''Sec-Fetch-Dest'', ''document''),
                (''Sec-Fetch-Mode'', ''navigate''),
                (''Sec-Fetch-Site'', if has_referer then ''same-origin'' else ''none''),
                (''Sec-Fetch-User'', ''?1''),
                (''Sec-CH-UA'', [CHR 0x22] @ ''Not_A Brand'' @ [CHR 0x22] @ '';v='' @ [CHR 0x22] @ ''8''
                   @ [CHR 0x22] @ '', '' @ [CHR 0x22] @ ''Chromium'' @ [CHR 0x22] @ '';v='' @ [CHR 0x22]
                   @ ''120'' @ [CHR 0x22] @ '', '' @ [CHR 0x22] @ ''Google Chrome'' @ [CHR 0x22]
                   @ '';v='' @ [CHR 0x22] @ ''120'' @ [CHR 0x22]),
                (''Sec-CH-UA-Mobile'', ''?0''),
                (''Sec-CH-UA-Platform'', [CHR 0x22] @ ''macOS'' @ [CHR 0x22]),
                (''DNT'', ''1''),
                (''Referer'', if has_referer then the_default [] referer else f_seedUrl f)]
      in case customHeaders (f_options f) of
           None \<Rightarrow> hs
         | Some extra \<Rightarrow> assign_headers hs extra)"

text \<open>\<^verbatim>\<open>s.includes(t)\<close>\<close>

fun str_includes :: "string \<Rightarrow> string \<Rightarrow> bool" where
  "str_includes [] t = (t = [])"
| "str_includes (c # cs) t = (startsWith (c # cs) t \<or> str_includes cs t)"

text \<open>
  \<^verbatim>\<open>parseInt(s, 10)\<close>: white space, a sign, then digits; \<open>None\<close> is \<^verbatim>\<open>NaN\<close>.
\<close>

definition parseInt10 :: "string \<Rightarrow> int option" where
  "parseInt10 s =
     (let t = dropWhile (\<lambda>c. c = CHR '' '' \<or> (CHR 0x09 \<le> c \<and> c \<le> CHR 0x0D)) s;
          negative = (t \<noteq> [] \<and> hd t = CHR ''-'');
          u = (if t \<noteq> [] \<and> (hd t = CHR ''-'' \<or> hd t = CHR ''+'') then tl t else t);
          ds = takeWhile is_digit u
      in if ds = [] then None
         else Some (if negative then - read_int ds else read_int ds))"

text \<open>\<^verbatim>\<open>response.headers.get(name)\<close>\<close>

definition header :: "HttpResponse \<Rightarrow> string \<Rightarrow> string option" where
  "header resp name = map_of (r_headers resp) name"

text \<open>
  A number of seconds given in milliseconds, as JavaScript prints it: \<^verbatim>\<open>2\<close>, \<^verbatim>\<open>1.5\<close>,
  \<^verbatim>\<open>0.25\<close>.
\<close>

definition show_seconds :: "int \<Rightarrow> string" where
  "show_seconds ms =
     (let a = \<bar>ms\<bar>; whole = a div 1000; frac = a mod 1000;
          digits = [char_of (48 + frac div 100), char_of (48 + (frac div 10) mod 10),
                    char_of (48 + frac mod 10)];
          trimmed = rev (dropWhile (\<lambda>c. c = CHR ''0'') (rev digits))
      in (if ms < 0 then ''-'' else []) @ show_int whole
         @ (if trimmed = [] then [] else CHR ''.'' # trimmed))"

definition failure :: "string \<Rightarrow> string \<Rightarrow> string option \<Rightarrow> FetchOutcome" where
  "failure u msg c = Failure \<lparr>fe_url = u, fe_error = msg, code = c, retryable = False\<rparr>"

definition maxRetries :: int where
  "maxRetries = 5"

text \<open>
  One pass through \<^verbatim>\<open>fetchWithRetry\<close>, up to its next jump: the outcome returned, a
  recursive call with the next attempt, or the next turn of the redirect loop.
\<close>

datatype phase =
  Start
| InLoop "(string \<times> string) list" string "string list" int

datatype step =
  Done FetchOutcome Fetcher
| Retry Fetcher
| Enter Fetcher "(string \<times> string) list"
| Continue Fetcher "(string \<times> string) list" string "string list" int

definition count_requests :: "Fetcher \<Rightarrow> nat" where
  "count_requests f = length (filter (\<lambda>e. case e of Requested u hs \<Rightarrow> True | _ \<Rightarrow> False) (events f))"

text \<open>The \<^verbatim>\<open>catch\<close> block.\<close>

definition on_error :: "world \<Rightarrow> Fetcher \<Rightarrow> string \<Rightarrow> int \<Rightarrow> string \<Rightarrow> step" where
  "on_error w f u attempt errorMessage =
     (let isAbort = str_includes errorMessage ''abort'';
          isTimeout = (isAbort \<or> str_includes errorMessage ''timeout'');
          isNetwork = (str_includes errorMessage ''ECONNREFUSED'' \<or> str_includes errorMessage ''ENOTFOUND''
                       \<or> str_includes errorMessage ''ETIMEDOUT'' \<or> str_includes errorMessage ''ECONNRESET''
                       \<or> str_includes errorMessage ''EPIPE'' \<or> str_includes errorMessage ''socket hang up'')
      in if (isTimeout \<or> isNetwork) \<and> attempt < maxRetries
         then (case addJitter w f (2 ^ nat attempt * 1000) of
                 (waitTime, f1) \<Rightarrow>
                   let f2 = delay f1 waitTime
                   in Retry (if attempt \<ge> 2 then rotateUserAgent f2 else f2))
         else Done (failure u errorMessage
                      (Some (if isTimeout then ''TIMEOUT''
                             else if isNetwork then ''NETWORK'' else ''UNKNOWN''))) f)"

definition bot_phrases :: "string list" where
  "bot_phrases =
     [''cf-browser-verification'', ''checking your browser'', ''ddos-guard'',
      ''please wait while we verify'', ''just a moment'', ''access denied'']"

text \<open>After the redirect loop: size checks, the body, the bot-page probe, the result.\<close>

definition after_loop ::
  "world \<Rightarrow> Fetcher \<Rightarrow> string \<Rightarrow> int \<Rightarrow> HttpResponse \<Rightarrow> string \<Rightarrow> string list \<Rightarrow> step" where
  "after_loop w f u attempt resp currentUrl chain =
     (let maxSize = maxFileSize (f_options f);
          declared = (case header resp ''content-length'' of
                        None \<Rightarrow> Some 0
                      | Some h \<Rightarrow> if h = [] then Some 0 else parseInt10 h)
      in if (case declared of None \<Rightarrow> False | Some n \<Rightarrow> n > maxSize)
         then Done (failure u (''File too large: '' @ show_int (the_default 0 declared)
                               @ '' bytes (max: '' @ show_int maxSize @ '')'') None) f
         else case r_body resp of
           None \<Rightarrow> on_error w f u attempt ''No response body''
         | Some b \<Rightarrow>
             if int (length b) > maxSize
             then Done (failure u (''File too large: exceeded '' @ show_int maxSize @ '' bytes'')
                          None) f
             else if r_status resp = 200
                     \<and> str_includes (the_default [] (header resp ''content-type'')) ''text/html''
                     \<and> list_ex (\<lambda>phrase. str_includes (toLowerCase b) phrase) bot_phrases
                     \<and> attempt < maxRetries
             then (let f1 = rotateUserAgent
                              (warn f ''Detected bot protection page, retrying with different UA'')
                   in case addJitter w f1 3000 of (j, f2) \<Rightarrow> Retry (delay f2 j))
             else Done (Success
                    \<lparr>fr_url = u, finalUrl = currentUrl, fr_status = r_status resp,
                     fr_headers = r_headers resp,
                     contentType = (case header resp ''content-type'' of
                                      None \<Rightarrow> ''application/octet-stream''
                                    | Some ct \<Rightarrow> if ct = [] then ''application/octet-stream'' else ct),
                     contentLength = int (length b), body = b,
                     isRedirect = (chain \<noteq> []), redirectChain = chain\<rparr>) f)"

text \<open>The wait of a 429 answer, in milliseconds.\<close>

definition retryAfterMs :: "world \<Rightarrow> Fetcher \<Rightarrow> HttpResponse \<Rightarrow> int" where
  "retryAfterMs w f resp =
     (case header resp ''retry-after'' of
        None \<Rightarrow> 60000
      | Some ra \<Rightarrow>
          if ra = [] then 60000
          else (case parseInt10 ra of
                  Some n \<Rightarrow> n * 1000
                | None \<Rightarrow>
                    (case dateParse w ra of
                       Some retryDate \<Rightarrow> max 1000 (retryDate - clock f)
                     | None \<Rightarrow> 60000)))"

definition fetch_step ::
  "platform \<Rightarrow> Config \<Rightarrow> world \<Rightarrow> Fetcher \<Rightarrow> string \<Rightarrow> string option \<Rightarrow> int \<Rightarrow> phase \<Rightarrow> step" where
  "fetch_step pf cfg w f u referer attempt ph =
     (case ph of
        Start \<Rightarrow>
          (let ssrfResult = validateUrlForSSRF pf (resolve4 w) u (allowedProtocols cfg) in
           if \<not> safe ssrfResult
           then Done (failure u (case reason ssrfResult of
                                   None \<Rightarrow> ''SSRF check failed''
                                 | Some r \<Rightarrow> if r = [] then ''SSRF check failed'' else r) None) f
           else Enter f (buildHeaders f u referer))
      | InLoop headers currentUrl chain redirectCount \<Rightarrow>
          (let f1 = f\<lparr>events := events f @ [Requested currentUrl headers]\<rparr> in
           case net w (count_requests f) currentUrl headers of
             NetError msg \<Rightarrow> on_error w f1 u attempt msg
           | Response resp \<Rightarrow>
               if r_status resp = 429
               then (let waitMs = retryAfterMs w f1 resp;
                         f2 = setRateLimit pf f1 u waitMs
                     in if attempt < maxRetries
                        then Retry (rotateUserAgent
                               (delay (warn f2 (''Rate limited (429), waiting ''
                                                @ show_seconds waitMs @ ''s before retry''))
                                  waitMs))
                        else Done (failure u (''Rate limited (429) - Retry-After: ''
                                              @ show_seconds waitMs @ ''s'')
                                     (Some ''RATE_LIMITED'')) f2)
               else if r_status resp = 403 \<and> attempt < maxRetries
               then (let f2 = rotateUserAgent (warn f1 ''Forbidden (403), rotating UA and retrying'')
                     in case addJitter w f2 2000 of (j, f3) \<Rightarrow> Retry (delay f3 j))
               else if r_status resp = 503 \<and> attempt < maxRetries
               then (let waitSeconds = (case header resp ''retry-after'' of
                                          None \<Rightarrow> Some 5
                                        | Some ra \<Rightarrow> if ra = [] then Some 5 else parseInt10 ra)
                     in Retry (delay (warn f1 (''Service unavailable (503), retrying in ''
                                 @ (case waitSeconds of None \<Rightarrow> ''NaN'' | Some n \<Rightarrow>
                                      (if n < 0 then ''-'' else []) @ show_int \<bar>n\<bar>) @ ''s''))
                                 (case waitSeconds of None \<Rightarrow> 0 | Some n \<Rightarrow> n * 1000)))
               else if followRedirects (f_options f)
                       \<and> r_status resp \<in> set [301, 302, 303, 307, 308]
               then (case header resp ''location'' of
                       None \<Rightarrow> after_loop w f1 u attempt resp currentUrl chain
                     | Some location \<Rightarrow>
                         if location = [] then after_loop w f1 u attempt resp currentUrl chain
                         else
                           (case urlResolve pf location currentUrl of
                              None \<Rightarrow> on_error w f1 u attempt ''Invalid URL''
                            | Some target \<Rightarrow>
                                let nextUrl = href target in
                                if redirectCount + 1 > maxRedirects (f_options f)
                                then Done (failure u (''Too many redirects (max: ''
                                             @ show_int (maxRedirects (f_options f)) @ '')'') None) f1
                                else
                                  let redirectSSRF = validateUrlForSSRF pf (resolve4 w) nextUrl
                                                       (allowedProtocols cfg)
                                  in if \<not> safe redirectSSRF
                                     then Done (failure u (''Redirect to blocked URL: ''
                                                  @ the_default ''undefined'' (reason redirectSSRF))
                                                  None) f1
                                     else Continue f1 (map_set ''Referer'' nextUrl headers) nextUrl
                                            (chain @ [currentUrl]) (redirectCount + 1)))
               else after_loop w f1 u attempt resp currentUrl chain))"

text \<open>Where each kind of step comes from, for the termination of the fetch.\<close>

lemma on_error_cases:
  "on_error w f u attempt msg = Retry f' \<Longrightarrow> attempt < 5"
  "on_error w f u attempt msg \<noteq> Enter f' hs"
  "on_error w f u attempt msg \<noteq> Continue f' hs cu ch rc"
  unfolding on_error_def Let_def maxRetries_def
  by (simp_all split: if_splits prod.splits)

lemma after_loop_cases:
  "after_loop w f u attempt resp cu0 ch0 = Retry f' \<Longrightarrow> attempt < 5"
  "after_loop w f u attempt resp cu0 ch0 \<noteq> Enter f' hs"
  "after_loop w f u attempt resp cu0 ch0 \<noteq> Continue f' hs cu ch rc"
  unfolding after_loop_def Let_def maxRetries_def
  using on_error_cases [of w f u attempt "''No response body''"]
  by (simp_all split: if_splits prod.splits option.splits)

lemma fetch_step_Start:
  "fetch_step pf cfg w f u referer attempt Start =
     (let ssrfResult = validateUrlForSSRF pf (resolve4 w) u (allowedProtocols cfg) in
      if \<not> safe ssrfResult
      then Done (failure u (case reason ssrfResult of
                              None \<Rightarrow> ''SSRF check failed''
                            | Some r \<Rightarrow> if r = [] then ''SSRF check failed'' else r) None) f
      else Enter f (buildHeaders f u referer))"
  by (simp add: fetch_step_def)

lemma on_error_exhausted:
  "\<not> attempt < 5 \<Longrightarrow> \<exists>out. on_error w f u attempt msg = Done out f"
  by (simp add: on_error_def Let_def maxRetries_def)

lemma after_loop_exhausted:
  "\<not> attempt < 5 \<Longrightarrow> \<exists>out. after_loop w f u attempt resp cu0 ch0 = Done out f"
  using on_error_exhausted [of attempt w f u "''No response body''"]
  by (simp add: after_loop_def Let_def maxRetries_def split: option.splits)

lemma fetch_step_exhausted:
  assumes "\<not> attempt < 5"
  shows "fetch_step pf cfg w f u referer attempt ph \<noteq> Retry f'"
proof (cases ph)
  case Start
  then show ?thesis
    by (simp add: fetch_step_Start Let_def)
next
  case (InLoop hs0 cu0 ch0 rc0)
  show ?thesis
  proof (cases "net w (count_requests f) cu0 hs0")
    case (NetError msg)
    with InLoop show ?thesis
      using on_error_exhausted [OF assms, of w "f\<lparr>events := events f @ [Requested cu0 hs0]\<rparr>" u msg]
      by (auto simp: fetch_step_def Let_def)
  next
    case (Response resp)
    obtain out where al: "after_loop w (f\<lparr>events := events f @ [Requested cu0 hs0]\<rparr>) u attempt
        resp cu0 ch0 = Done out (f\<lparr>events := events f @ [Requested cu0 hs0]\<rparr>)"
      using after_loop_exhausted [OF assms] by blast
    obtain out2 where oe: "on_error w (f\<lparr>events := events f @ [Requested cu0 hs0]\<rparr>) u attempt
        ''Invalid URL'' = Done out2 (f\<lparr>events := events f @ [Requested cu0 hs0]\<rparr>)"
      using on_error_exhausted [OF assms] by blast
    from assms have na: "\<not> attempt < maxRetries"
      by (simp add: maxRetries_def)
    show ?thesis
      unfolding fetch_step_def InLoop phase.case Let_def Response NetResult.case
      by (simp only: na al oe if_False simp_thms step.distinct split: if_splits option.splits)
         auto?
  qed
qed


lemma fetch_step_Retry:
  "fetch_step pf cfg w f u referer attempt ph = Retry f' \<Longrightarrow> attempt < 5"
  using fetch_step_exhausted by blast

lemma fetch_step_Continue:
  assumes "fetch_step pf cfg w f u referer attempt ph = Continue f' hs cu ch rc"
  shows "\<exists>hs0 cu0 ch0 rc0. ph = InLoop hs0 cu0 ch0 rc0 \<and> rc = rc0 + 1 \<and>
        rc \<le> maxRedirects (f_options f) \<and> f_options f' = f_options f"
proof (cases ph)
  case Start
  with assms show ?thesis
    by (simp add: fetch_step_Start Let_def split: if_splits)
next
  case (InLoop hs0 cu0 ch0 rc0)
  show ?thesis
  proof (cases "net w (count_requests f) cu0 hs0")
    case (NetError msg)
    with assms InLoop show ?thesis
      by (simp add: fetch_step_def Let_def on_error_cases)
  next
    case (Response resp)
    with assms InLoop show ?thesis
      unfolding fetch_step_def Let_def maxRetries_def
      by (auto split: if_splits option.splits prod.splits
          simp: on_error_cases after_loop_cases)
  qed
qed

lemma fetch_step_Enter:
  assumes "fetch_step pf cfg w f u referer attempt ph = Enter f' hs"
  shows "ph = Start \<and> f' = f"
proof (cases ph)
  case Start
  with assms show ?thesis
    by (simp add: fetch_step_Start Let_def split: if_splits)
next
  case (InLoop hs0 cu0 ch0 rc0)
  show ?thesis
  proof (cases "net w (count_requests f) cu0 hs0")
    case (NetError msg)
    with assms InLoop show ?thesis
      by (simp add: fetch_step_def Let_def on_error_cases)
  next
    case (Response resp)
    with assms InLoop show ?thesis
      unfolding fetch_step_def Let_def maxRetries_def
      by (simp split: if_splits option.splits prod.splits
          add: on_error_cases after_loop_cases)
  qed
qed

function fetchWithRetry ::
  "platform \<Rightarrow> Config \<Rightarrow> world \<Rightarrow> Fetcher \<Rightarrow> string \<Rightarrow> string option \<Rightarrow> int \<Rightarrow> phase
     \<Rightarrow> FetchOutcome \<times> Fetcher" where
  "fetchWithRetry pf cfg w f u referer attempt ph =
     (case fetch_step pf cfg w f u referer attempt ph of
        Done outcome f' \<Rightarrow> (outcome, f')
      | Retry f' \<Rightarrow> fetchWithRetry pf cfg w f' u referer (attempt + 1) Start
      | Enter f' headers \<Rightarrow> fetchWithRetry pf cfg w f' u referer attempt (InLoop headers u [] 0)
      | Continue f' headers currentUrl chain redirectCount \<Rightarrow>
          fetchWithRetry pf cfg w f' u referer attempt
            (InLoop headers currentUrl chain redirectCount))"
  by pat_completeness auto
termination
proof (relation "measures
    [\<lambda>(pf, cfg, w, f, u, referer, attempt, ph). nat (5 - attempt),
     \<lambda>(pf, cfg, w, f, u, referer, attempt, ph).
        (case ph of
           Start \<Rightarrow> Suc (nat (maxRedirects (f_options f) + 1))
         | InLoop hs cu ch rc \<Rightarrow> nat (maxRedirects (f_options f) + 1 - rc))]")
  show "wf (measures
    [\<lambda>(pf, cfg, w, f, u, referer, attempt, ph). nat (5 - attempt),
     \<lambda>(pf, cfg, w, f, u, referer, attempt, ph).
        (case ph of
           Start \<Rightarrow> Suc (nat (maxRedirects (f_options f) + 1))
         | InLoop hs cu ch rc \<Rightarrow> nat (maxRedirects (f_options f) + 1 - rc))])"
    by simp
next
  fix pf cfg w f u referer attempt ph f'
  assume "fetch_step pf cfg w f u referer attempt ph = Retry f'"
  then have "attempt < 5" by (rule fetch_step_Retry)
  then show "((pf, cfg, w, f', u, referer, attempt + 1, Start),
              (pf, cfg, w, f, u, referer, attempt, ph)) \<in> measures
    [\<lambda>(pf, cfg, w, f, u, referer, attempt, ph). nat (5 - attempt),
     \<lambda>(pf, cfg, w, f, u, referer, attempt, ph).
        (case ph of
           Start \<Rightarrow> Suc (nat (maxRedirects (f_options f) + 1))
         | InLoop hs cu ch rc \<Rightarrow> nat (maxRedirects (f_options f) + 1 - rc))]"
    by simp
next
  fix pf cfg w f u referer attempt ph f' headers
  assume "fetch_step pf cfg w f u referer attempt ph = Enter f' headers"
  then have "ph = Start \<and> f' = f" by (rule fetch_step_Enter)
  then show "((pf, cfg, w, f', u, referer, attempt, InLoop headers u [] 0),
              (pf, cfg, w, f, u, referer, attempt, ph)) \<in> measures
    [\<lambda>(pf, cfg, w, f, u, referer, attempt, ph). nat (5 - attempt),
     \<lambda>(pf, cfg, w, f, u, referer, attempt, ph).
        (case ph of
           Start \<Rightarrow> Suc (nat (maxRedirects (f_options f) + 1))
         | InLoop hs cu ch rc \<Rightarrow> nat (maxRedirects (f_options f) + 1 - rc))]"
    by simp
next
  fix pf cfg w f u referer attempt ph f' headers currentUrl chain redirectCount
  assume "fetch_step pf cfg w f u referer attempt ph =
            Continue f' headers currentUrl chain redirectCount"
  from fetch_step_Continue [OF this]
  obtain hs0 cu0 ch0 rc0 where "ph = InLoop hs0 cu0 ch0 rc0"
    "redirectCount = rc0 + 1" "redirectCount \<le> maxRedirects (f_options f)"
    "f_options f' = f_options f"
    by blast
  then show "((pf, cfg, w, f', u, referer, attempt, InLoop headers currentUrl chain redirectCount),
              (pf, cfg, w, f, u, referer, attempt, ph)) \<in> measures
    [\<lambda>(pf, cfg, w, f, u, referer, attempt, ph). nat (5 - attempt),
     \<lambda>(pf, cfg, w, f, u, referer, attempt, ph).
        (case ph of
           Start \<Rightarrow> Suc (nat (maxRedirects (f_options f) + 1))
         | InLoop hs cu ch rc \<Rightarrow> nat (maxRedirects (f_options f) + 1 - rc))]"
    by simp
qed

text \<open>\<^verbatim>\<open>fetch\<close>: the public entry.\<close>

definition fetch ::
  "platform \<Rightarrow> Config \<Rightarrow> world \<Rightarrow> Fetcher \<Rightarrow> string \<Rightarrow> string option \<Rightarrow> FetchOutcome \<times> Fetcher" where
  "fetch pf cfg w f u referer =
     (if f_aborted f then (failure u ''Fetcher aborted'' None, f)
      else
        case isRateLimited pf f u of
          (limited, f1) \<Rightarrow>
            let f2 = (if limited
                      then delay f1 (the_default 0 (map_of (rateLimitedUntil f1)
                                                     (fetcher_getDomain pf u)) - clock f1)
                      else f1)
            in case addJitter w f2 (baseDelayMs f2) of
                 (randomDelay, f3) \<Rightarrow>
                   fetchWithRetry pf cfg w (delay f3 randomDelay) u referer 1 Start)"

section \<open>More of the frontier (crawler/queue.ts)\<close>

text \<open>\<^verbatim>\<open>next\<close>: the oldest pending entry, stale keys dropped. \<open>now\<close> is the clock.\<close>

fun next_pending ::
  "(string \<times> QueuedUrl) list \<Rightarrow> string list \<Rightarrow> (QueuedUrl \<times> string list) option" where
  "next_pending m [] = None"
| "next_pending m (normalized # rest) =
     (if normalized = [] then next_pending m rest
      else case map_of m normalized of
             None \<Rightarrow> next_pending m rest
           | Some item \<Rightarrow>
               if status item \<noteq> Pending then next_pending m rest
               else Some (item, rest))"

definition queue_next :: "int \<Rightarrow> UrlQueue \<Rightarrow> QueuedUrl option \<times> UrlQueue" where
  "queue_next now q =
     (case next_pending (queue q) (pendingUrls q) of
        None \<Rightarrow> (None, q\<lparr>pendingUrls := []\<rparr>)
      | Some (item, rest) \<Rightarrow>
          let item' = item\<lparr>status := InProgress, processedAt := Some now\<rparr>
          in (Some item',
              q\<lparr>queue := map_set (normalizedUrl item) item' (queue q), pendingUrls := rest\<rparr>))"

definition queue_modify :: "UrlQueue \<Rightarrow> string \<Rightarrow> (QueuedUrl \<Rightarrow> QueuedUrl) \<Rightarrow> UrlQueue" where
  "queue_modify q normalized g =
     (case map_of (queue q) normalized of
        None \<Rightarrow> q
      | Some item \<Rightarrow> q\<lparr>queue := map_set normalized (g item) (queue q)\<rparr>)"

definition queue_complete :: "UrlQueue \<Rightarrow> string \<Rightarrow> UrlQueue" where
  "queue_complete q normalized = queue_modify q normalized (\<lambda>item. item\<lparr>status := Complete\<rparr>)"

definition queue_fail :: "UrlQueue \<Rightarrow> string \<Rightarrow> string \<Rightarrow> UrlQueue" where
  "queue_fail q normalized err =
     queue_modify q normalized (\<lambda>item. item\<lparr>status := Failed, error := Some err\<rparr>)"

definition queue_skip :: "UrlQueue \<Rightarrow> string \<Rightarrow> string \<Rightarrow> UrlQueue" where
  "queue_skip q normalized why =
     queue_modify q normalized (\<lambda>item. item\<lparr>status := Skipped, error := Some why\<rparr>)"

definition hasInProgress :: "UrlQueue \<Rightarrow> bool" where
  "hasInProgress q = list_ex (\<lambda>(k, item). status item = InProgress) (queue q)"

definition hasPending :: "UrlQueue \<Rightarrow> bool" where
  "hasPending q = (pendingUrls q \<noteq> [] \<or> hasInProgress q)"

section \<open>The engine (crawler/engine.ts)\<close>

datatype CrawlStatus =
  StatusPending | StatusRunning | StatusPaused | StatusComplete | StatusFailed | StatusCancelled

definition status_name :: "CrawlStatus \<Rightarrow> string" where
  "status_name s =
     (case s of
        StatusPending \<Rightarrow> ''pending'' | StatusRunning \<Rightarrow> ''running'' | StatusPaused \<Rightarrow> ''paused''
      | StatusComplete \<Rightarrow> ''complete'' | StatusFailed \<Rightarrow> ''failed''
      | StatusCancelled \<Rightarrow> ''cancelled'')"

record CrawlError =
  ce_url :: string
  ce_error :: string
  ce_timestamp :: int

record CrawlResult =
  success :: bool
  pagesProcessed :: int
  assetsProcessed :: int
  bytesDownloaded :: int
  errors :: "CrawlError list"
  duration :: int

datatype LogLevel = LogDebug | LogInfo | LogWarn | LogError

datatype LinkType = PageLink | AssetLink

text \<open>
  The parsers and rewriters of \<^verbatim>\<open>parsers/html.ts\<close> and \<^verbatim>\<open>parsers/css.ts\<close>, which work
  through an HTML and a CSS library, the \<^verbatim>\<open>robots-parser\<close> library and the MD5 digest are
  parameters of the engine: the links \<^verbatim>\<open>parseHtml\<close> extracts with their kind, the URLs
  \<^verbatim>\<open>parseCss\<close> extracts, the two rewriters as functions of the text, the URL-to-path map
  and the page path or the path to the root, and the allow-predicate of a robots file.
\<close>

record tools =
  parseHtml :: "string \<Rightarrow> string \<Rightarrow> (string \<times> LinkType) list"
  parseCss :: "string \<Rightarrow> string \<Rightarrow> string list"
  rewriteHtmlLinks :: "string \<Rightarrow> (string \<times> string) list \<Rightarrow> string \<Rightarrow> string"
  rewriteCssUrls :: "string \<Rightarrow> (string \<times> string) list \<Rightarrow> string \<Rightarrow> string"
  robotsParser :: "string \<Rightarrow> string \<Rightarrow> string \<Rightarrow> string \<Rightarrow> bool"
  md5 :: "string \<Rightarrow> string"

text \<open>
  The engine. \<open>e_log\<close> holds the log events it emits and \<open>robotsRequests\<close> the requests
  for a robots file. For \<^verbatim>\<open>Date.now()\<close> the engine reads the clock of its fetcher, which
  the waits of the fetcher advance and nothing else: the time that the work itself takes
  is not modelled, and nothing below is said about how long a run takes.
\<close>

record CrawlEngine =
  jobId :: string
  e_options :: CrawlOptions
  e_queue :: UrlQueue
  fetcher :: Fetcher
  rewriter :: LinkRewriter
  storage :: FileStorage
  robotsRules :: "(string \<Rightarrow> bool) option"
  e_status :: CrawlStatus
  startTime :: int
  e_errors :: "CrawlError list"
  e_pagesProcessed :: int
  e_assetsProcessed :: int
  currentUrl :: "string option"
  aborted :: bool
  e_log :: "(LogLevel \<times> string) list"
  robotsRequests :: "string list"

definition CrawlEngine_new ::
  "platform \<Rightarrow> Config \<Rightarrow> world \<Rightarrow> string \<Rightarrow> int \<Rightarrow> string \<Rightarrow> string \<Rightarrow> CrawlOptions \<Rightarrow> CrawlEngine" where
  "CrawlEngine_new pf cfg w cwd now jid u opts =
     \<lparr>jobId = jid, e_options = opts, e_queue = UrlQueue_new pf now u opts,
      fetcher = Fetcher_new w now opts, rewriter = LinkRewriter_new,
      storage = FileStorage_new cfg cwd jid, robotsRules = None, e_status = StatusPending,
      startTime = 0, e_errors = [], e_pagesProcessed = 0, e_assetsProcessed = 0,
      currentUrl = None, aborted = False, e_log = [], robotsRequests = []\<rparr>"

definition now_of :: "CrawlEngine \<Rightarrow> int" where
  "now_of e = clock (fetcher e)"

definition log :: "CrawlEngine \<Rightarrow> LogLevel \<Rightarrow> string \<Rightarrow> CrawlEngine" where
  "log e level message = e\<lparr>e_log := e_log e @ [(level, message)]\<rparr>"

definition record_error :: "CrawlEngine \<Rightarrow> string \<Rightarrow> string \<Rightarrow> CrawlEngine" where
  "record_error e u msg =
     e\<lparr>e_errors := e_errors e @ [\<lparr>ce_url = u, ce_error = msg, ce_timestamp = now_of e\<rparr>]\<rparr>"

text \<open>\<^verbatim>\<open>fetchRobotsTxt\<close> (crawler/robots.ts): the rules, or \<open>None\<close> for \<^verbatim>\<open>null\<close>.\<close>

definition fetchRobotsTxt ::
  "platform \<Rightarrow> world \<Rightarrow> tools \<Rightarrow> CrawlEngine \<Rightarrow> string \<Rightarrow> string \<Rightarrow> (string \<Rightarrow> bool) option \<times> CrawlEngine" where
  "fetchRobotsTxt pf w ts e baseUrl ua =
     (case urlResolve pf ''/robots.txt'' baseUrl of
        None \<Rightarrow> (None, e)
      | Some target \<Rightarrow>
          let e1 = e\<lparr>robotsRequests := robotsRequests e @ [href target]\<rparr> in
          case plainGet w (href target) of
            NetError msg \<Rightarrow> (None, e1)
          | Response resp \<Rightarrow>
              if \<not> (200 \<le> r_status resp \<and> r_status resp \<le> 299) then (None, e1)
              else (Some (robotsParser ts (href target) (the_default [] (r_body resp)) ua), e1))"

text \<open>\<^verbatim>\<open>processHtml\<close> and \<^verbatim>\<open>processCss\<close>: the loops over the extracted links.\<close>

fun enqueue_links ::
  "platform \<Rightarrow> int \<Rightarrow> UrlQueue \<Rightarrow> string \<Rightarrow> int \<Rightarrow> (string \<times> LinkType) list \<Rightarrow> string + UrlQueue" where
  "enqueue_links pf now q parent d [] = Inr q"
| "enqueue_links pf now q parent d ((u, ty) # links) =
     (case normalizeUrl pf u of
        None \<Rightarrow> enqueue_links pf now q parent d links
      | Some normalized \<Rightarrow>
          (case ty of
             AssetLink \<Rightarrow> enqueue_links pf now (snd (addAsset pf now q u parent d)) parent d links
           | PageLink \<Rightarrow>
               (case add pf now q u parent (d + 1) of
                  Inl err \<Rightarrow> Inl err
                | Inr (added, q') \<Rightarrow> enqueue_links pf now q' parent d links)))"

fun enqueue_assets ::
  "platform \<Rightarrow> int \<Rightarrow> UrlQueue \<Rightarrow> string \<Rightarrow> int \<Rightarrow> string list \<Rightarrow> UrlQueue" where
  "enqueue_assets pf now q parent d [] = q"
| "enqueue_assets pf now q parent d (u # us) =
     enqueue_assets pf now (snd (addAsset pf now q u parent d)) parent d us"

text \<open>\<^verbatim>\<open>contentType.split(';')[0]?.trim().toLowerCase() || ''\<close>\<close>

definition is_ws :: "char \<Rightarrow> bool" where
  "is_ws c = (c = CHR '' '' \<or> (CHR 0x09 \<le> c \<and> c \<le> CHR 0x0D))"

definition trim :: "string \<Rightarrow> string" where
  "trim s = rev (dropWhile is_ws (rev (dropWhile is_ws s)))"

definition leading_type :: "string \<Rightarrow> string" where
  "leading_type ct = toLowerCase (trim (hd (split CHR '';'' ct)))"

text \<open>
  The \<^verbatim>\<open>catch\<close> block of \<^verbatim>\<open>processUrl\<close>: what was done before the error stays done.
\<close>

definition processUrl_failed :: "CrawlEngine \<Rightarrow> QueuedUrl \<Rightarrow> string \<Rightarrow> CrawlEngine" where
  "processUrl_failed e item msg =
     log (record_error (e\<lparr>e_queue := queue_fail (e_queue e) (normalizedUrl item) msg\<rparr>)
            (q_url item) msg)
       LogError (''Error processing URL: '' @ msg)"

text \<open>The body of \<^verbatim>\<open>processUrl\<close> after a successful fetch and the registrations.\<close>

definition store_and_parse ::
  "platform \<Rightarrow> Config \<Rightarrow> world \<Rightarrow> tools \<Rightarrow> CrawlEngine \<Rightarrow> QueuedUrl \<Rightarrow> FetchResult \<Rightarrow> string
     \<Rightarrow> CrawlEngine" where
  "store_and_parse pf cfg w ts e item fetchResult localPath =
     (let ct = leading_type (contentType fetchResult);
          isHtml = str_includes ct ''html'';
          isCss = str_includes ct ''css''
      in case writeFile (files w) cfg (storage e) localPath (body fetchResult) of
           Inl (msg, st) \<Rightarrow> processUrl_failed (e\<lparr>storage := st\<rparr>) item msg
         | Inr st \<Rightarrow>
             let e1 = e\<lparr>storage := st\<rparr>;
                 done = (\<lambda>e'. log (e'\<lparr>e_queue := queue_complete (e_queue e') (normalizedUrl item)\<rparr>)
                                LogDebug (''Downloaded: '' @ localPath))
             in if isHtml
                then (let e2 = e1\<lparr>e_pagesProcessed := e_pagesProcessed e1 + 1\<rparr> in
                      case enqueue_links pf (now_of e2) (e_queue e2) (finalUrl fetchResult)
                             (depth item)
                             (parseHtml ts (body fetchResult) (finalUrl fetchResult)) of
                        Inl msg \<Rightarrow> processUrl_failed e2 item msg
                      | Inr q \<Rightarrow> done (e2\<lparr>e_queue := q\<rparr>))
                else if isCss
                then (let e2 = e1\<lparr>e_assetsProcessed := e_assetsProcessed e1 + 1\<rparr> in
                      done (e2\<lparr>e_queue :=
                              enqueue_assets pf (now_of e2) (e_queue e2) (finalUrl fetchResult)
                                (depth item)
                                (parseCss ts (body fetchResult) (finalUrl fetchResult))\<rparr>))
                else done (e1\<lparr>e_assetsProcessed := e_assetsProcessed e1 + 1\<rparr>))"

definition processUrl ::
  "platform \<Rightarrow> Config \<Rightarrow> world \<Rightarrow> tools \<Rightarrow> CrawlEngine \<Rightarrow> QueuedUrl \<Rightarrow> CrawlEngine" where
  "processUrl pf cfg w ts e0 item =
     (let e = e0\<lparr>currentUrl := Some (q_url item)\<rparr> in
      case fetch pf cfg w (fetcher e) (q_url item)
             (case parentUrl item of None \<Rightarrow> None | Some p \<Rightarrow> if p = [] then None else Some p) of
        (Failure err, f) \<Rightarrow>
          log (record_error
                 (e\<lparr>fetcher := f,
                    e_queue := queue_fail (e_queue e) (normalizedUrl item) (fe_error err)\<rparr>)
                 (q_url item) (fe_error err))
            LogWarn (''Failed to fetch: '' @ fe_error err)
      | (Success fetchResult, f) \<Rightarrow>
          let e1 = e\<lparr>fetcher := f\<rparr> in
          case registerUrl pf (md5 ts) (now_of e1) (rewriter e1) (finalUrl fetchResult) of
            Inl msg \<Rightarrow> processUrl_failed e1 item msg
          | Inr (localPath, r1) \<Rightarrow>
              let e2 = e1\<lparr>rewriter := r1\<rparr> in
              if isRedirect fetchResult
              then (case registerUrl pf (md5 ts) (now_of e2) (rewriter e2) (q_url item) of
                      Inl msg \<Rightarrow> processUrl_failed e2 item msg
                    | Inr (p2, r2) \<Rightarrow>
                        store_and_parse pf cfg w ts
                          (log (e2\<lparr>rewriter := r2\<rparr>) LogDebug
                             (''Redirect: '' @ q_url item @ '' -> '' @ finalUrl fetchResult))
                          item fetchResult localPath)
              else store_and_parse pf cfg w ts e2 item fetchResult localPath)"

text \<open>\<^verbatim>\<open>'../'.repeat(depth)\<close>\<close>

definition toRoot_of :: "string \<Rightarrow> string" where
  "toRoot_of file =
     (let d = length (split CHR ''/'' file) - 1
      in if d > 0 then concat (replicate d ''../'') else ''./'')"

text \<open>
  \<^verbatim>\<open>rewriteAllLinks\<close>: one turn of the loop over the stored files, and the loop. \<open>Inl\<close> is
  the message of the error thrown when the files cannot be listed, with the engine as it
  is then.
\<close>

definition rewrite_file ::
  "platform \<Rightarrow> Config \<Rightarrow> world \<Rightarrow> tools \<Rightarrow> (string \<times> string) list \<Rightarrow> CrawlEngine \<Rightarrow> string
     \<Rightarrow> CrawlEngine" where
  "rewrite_file pf cfg w ts urlToPathMap e file =
     (let category = getMimeCategory (getExtensionFromUrl pf file) in
      if category \<noteq> Html \<and> category \<noteq> Css then e
      else case readFile (storage e) file of
             Inl msg \<Rightarrow> log e LogWarn (''Failed to rewrite links in: '' @ file)
           | Inr content \<Rightarrow>
               let rewritten =
                     (if category = Html then rewriteHtmlLinks ts content urlToPathMap file
                      else rewriteCssUrls ts content urlToPathMap (toRoot_of file))
               in case writeFile (files w) cfg (storage e) file rewritten of
                    Inl (msg, st) \<Rightarrow>
                      log (e\<lparr>storage := st\<rparr>) LogWarn (''Failed to rewrite links in: '' @ file)
                  | Inr st \<Rightarrow> log (e\<lparr>storage := st\<rparr>) LogDebug (''Rewrote links in: '' @ file))"

definition rewriteAllLinks ::
  "platform \<Rightarrow> Config \<Rightarrow> world \<Rightarrow> tools \<Rightarrow> CrawlEngine \<Rightarrow> (string \<times> CrawlEngine) + CrawlEngine" where
  "rewriteAllLinks pf cfg w ts e0 =
     (let e = log e0 LogInfo ''Rewriting links in downloaded files''
      in case listFiles (files w) (storage e) of
           Inl msg \<Rightarrow> Inl (msg, e)
         | Inr fls \<Rightarrow> Inr (foldl (rewrite_file pf cfg w ts (getMappings (rewriter e))) e fls))"

text \<open>
  \<^verbatim>\<open>crawlLoop\<close>, in a run that no control call (pause, resume, cancel) reaches and in which
  each \<^verbatim>\<open>processUrl\<close> settles before the next URL is taken, which is the order of a crawl
  with a concurrency of one. An engine that finds itself paused waits for a resume that
  does not come. The loop may go on for as long as new URLs are found: it runs on fuel, one
  unit a turn, and \<open>None\<close> says that the loop has not ended within the fuel.
\<close>

fun crawlLoop ::
  "platform \<Rightarrow> Config \<Rightarrow> world \<Rightarrow> tools \<Rightarrow> nat \<Rightarrow> CrawlEngine \<Rightarrow> CrawlEngine option" where
  "crawlLoop pf cfg w ts 0 e =
     (if hasPending (e_queue e) \<and> \<not> aborted e then None else Some e)"
| "crawlLoop pf cfg w ts (Suc fuel) e =
     (if \<not> (hasPending (e_queue e) \<and> \<not> aborted e) then Some e
      else if e_status e = StatusPaused then None
      else
        case queue_next (now_of e) (e_queue e) of
          (None, q) \<Rightarrow> Some (e\<lparr>e_queue := q\<rparr>)
        | (Some item, q) \<Rightarrow>
            let e1 = e\<lparr>e_queue := q\<rparr> in
            if (case robotsRules e1 of None \<Rightarrow> False | Some allowed \<Rightarrow> \<not> allowed (q_url item))
            then crawlLoop pf cfg w ts fuel
                   (log (e1\<lparr>e_queue := queue_skip (e_queue e1) (normalizedUrl item)
                                          ''Blocked by robots.txt''\<rparr>)
                      LogDebug ''Skipped by robots.txt'')
            else crawlLoop pf cfg w ts fuel (processUrl pf cfg w ts e1 item))"

text \<open>
  How a call of \<^verbatim>\<open>start\<close> ends: it throws, with the engine as the throw leaves it; or it
  has not ended within the fuel; or it returns.
\<close>

datatype 'a run = Threw string CrawlEngine | OutOfFuel | Returned 'a

text \<open>
  \<^verbatim>\<open>start\<close>, in three parts: what comes before the main loop (status, storage, robots
  rules), the loop, and what comes after it (the rewrite pass, the final status, the
  result); and the \<^verbatim>\<open>catch\<close> block, which marks the engine failed before the error is
  thrown again.
\<close>

definition start_setup ::
  "platform \<Rightarrow> Config \<Rightarrow> world \<Rightarrow> tools \<Rightarrow> CrawlEngine \<Rightarrow> (string \<times> CrawlEngine) + CrawlEngine" where
  "start_setup pf cfg w ts e0 =
     (let e1 = log (e0\<lparr>e_status := StatusRunning, startTime := now_of e0\<rparr>) LogInfo
                 ''Starting crawl''
      in case storage_init (files w) (storage e1) of
           Inl msg \<Rightarrow> Inl (msg, e1)
         | Inr st \<Rightarrow>
             let e2 = e1\<lparr>storage := st\<rparr>
             in if respectRobotsTxt (e_options e2)
                then (case fetchRobotsTxt pf w ts (log e2 LogDebug ''Fetching robots.txt'')
                             (opt_url (e_options e2))
                             (case userAgent (e_options e2) of
                                None \<Rightarrow> defaultUserAgent cfg
                              | Some ua \<Rightarrow> if ua = [] then defaultUserAgent cfg else ua) of
                        (None, e') \<Rightarrow> Inr (e'\<lparr>robotsRules := None\<rparr>)
                      | (Some rules, e') \<Rightarrow>
                          Inr (log (e'\<lparr>robotsRules := Some rules\<rparr>) LogInfo
                                 ''robots.txt loaded, will respect rules''))
                else Inr (e2\<lparr>robotsRules := Some (\<lambda>u. True)\<rparr>))"

definition start_finish ::
  "platform \<Rightarrow> Config \<Rightarrow> world \<Rightarrow> tools \<Rightarrow> CrawlEngine
     \<Rightarrow> (string \<times> CrawlEngine) + (CrawlResult \<times> CrawlEngine)" where
  "start_finish pf cfg w ts e4 =
     (case rewriteAllLinks pf cfg w ts e4 of
        Inl failed \<Rightarrow> Inl failed
      | Inr e5 \<Rightarrow>
          let e6 = log (e5\<lparr>e_status := (if aborted e5 then StatusCancelled else StatusComplete)\<rparr>)
                     LogInfo ''Crawl complete''
          in Inr (\<lparr>success = (\<not> aborted e6 \<and> e_errors e6 = []),
                    pagesProcessed = e_pagesProcessed e6,
                    assetsProcessed = e_assetsProcessed e6,
                    bytesDownloaded = totalBytes (stats (storage e6)),
                    errors = e_errors e6,
                    duration = now_of e6 - startTime e6\<rparr>, e6))"

definition start_failed :: "string \<times> CrawlEngine \<Rightarrow> (CrawlResult \<times> CrawlEngine) run" where
  "start_failed failed =
     (case failed of
        (msg, e) \<Rightarrow> Threw msg (log (e\<lparr>e_status := StatusFailed\<rparr>) LogError ''Crawl failed''))"

definition start ::
  "platform \<Rightarrow> Config \<Rightarrow> world \<Rightarrow> tools \<Rightarrow> nat \<Rightarrow> CrawlEngine \<Rightarrow> (CrawlResult \<times> CrawlEngine) run" where
  "start pf cfg w ts fuel e0 =
     (if e_status e0 \<noteq> StatusPending \<and> e_status e0 \<noteq> StatusPaused
      then Threw (''Cannot start crawl in status: '' @ status_name (e_status e0)) e0
      else case start_setup pf cfg w ts e0 of
             Inl failed \<Rightarrow> start_failed failed
           | Inr e3 \<Rightarrow>
               (case crawlLoop pf cfg w ts fuel e3 of
                  None \<Rightarrow> OutOfFuel
                | Some e4 \<Rightarrow>
                    (case start_finish pf cfg w ts e4 of
                       Inl failed \<Rightarrow> start_failed failed
                     | Inr done \<Rightarrow> Returned done)))"

section \<open>The platform's MD5 digest\<close>

text \<open>
  \<^verbatim>\<open>createHash('md5').update(s).digest('hex')\<close>: MD5 as RFC 1321 defines it, on the bytes
  of the string.
\<close>

definition md5_K :: "32 word list" where
  "md5_K =
     [0xd76aa478, 0xe8c7b756, 0x242070db, 0xc1bdceee, 0xf57c0faf, 0x4787c62a, 0xa8304613,
      0xfd469501, 0x698098d8, 0x8b44f7af, 0xffff5bb1, 0x895cd7be, 0x6b901122, 0xfd987193,
      0xa679438e, 0x49b40821, 0xf61e2562, 0xc040b340, 0x265e5a51, 0xe9b6c7aa, 0xd62f105d,
      0x02441453, 0xd8a1e681, 0xe7d3fbc8, 0x21e1cde6, 0xc33707d6, 0xf4d50d87, 0x455a14ed,
      0xa9e3e905, 0xfcefa3f8, 0x676f02d9, 0x8d2a4c8a, 0xfffa3942, 0x8771f681, 0x6d9d6122,
      0xfde5380c, 0xa4beea44, 0x4bdecfa9, 0xf6bb4b60, 0xbebfbc70, 0x289b7ec6, 0xeaa127fa,
      0xd4ef3085, 0x04881d05, 0xd9d4d039, 0xe6db99e5, 0x1fa27cf8, 0xc4ac5665, 0xf4292244,
      0x432aff97, 0xab9423a7, 0xfc93a039, 0x655b59c3, 0x8f0ccc92, 0xffeff47d, 0x85845dd1,
      0x6fa87e4f, 0xfe2ce6e0, 0xa3014314, 0x4e0811a1, 0xf7537e82, 0xbd3af235, 0x2ad7d2bb,
      0xeb86d391]"

definition md5_s :: "nat list" where
  "md5_s =
     [7, 12, 17, 22, 7, 12, 17, 22, 7, 12, 17, 22, 7, 12, 17, 22,
      5, 9, 14, 20, 5, 9, 14, 20, 5, 9, 14, 20, 5, 9, 14, 20,
      4, 11, 16, 23, 4, 11, 16, 23, 4, 11, 16, 23, 4, 11, 16, 23,
      6, 10, 15, 21, 6, 10, 15, 21, 6, 10, 15, 21, 6, 10, 15, 21]"

text \<open>The index of the message word a round reads.\<close>

definition md5_g :: "nat list" where
  "md5_g =
     [0, 1, 2, 3, 4, 5, 6, 7, 8, 9, 10, 11, 12, 13, 14, 15,
      1, 6, 11, 0, 5, 10, 15, 4, 9, 14, 3, 8, 13, 2, 7, 12,
      5, 8, 11, 14, 1, 4, 7, 10, 13, 0, 3, 6, 9, 12, 15, 2,
      0, 7, 14, 5, 12, 3, 10, 1, 8, 15, 6, 13, 4, 11, 2, 9]"

definition md5_f :: "nat \<Rightarrow> 32 word \<Rightarrow> 32 word \<Rightarrow> 32 word \<Rightarrow> 32 word" where
  "md5_f i b c d =
     (if i < 16 then (b AND c) OR (NOT b AND d)
      else if i < 32 then (d AND b) OR (NOT d AND c)
      else if i < 48 then b XOR c XOR d
      else c XOR (b OR NOT d))"

definition md5_round ::
  "32 word list \<Rightarrow> nat \<Rightarrow> 32 word \<times> 32 word \<times> 32 word \<times> 32 word
     \<Rightarrow> 32 word \<times> 32 word \<times> 32 word \<times> 32 word" where
  "md5_round m i st =
     (case st of
        (a, b, c, d) \<Rightarrow>
          (d, b + word_rotl (md5_s ! i) (a + md5_f i b c d + md5_K ! i + m ! (md5_g ! i)), b, c))"

definition le32 :: "string \<Rightarrow> 32 word" where
  "le32 bs = foldr (\<lambda>c acc. of_char c + push_bit 8 acc) bs 0"

fun chunks_of :: "nat \<Rightarrow> string \<Rightarrow> string list" where
  "chunks_of n [] = []"
| "chunks_of n (c # cs) =
     (if n = 0 then [] else take n (c # cs) # chunks_of n (drop n (c # cs)))"

definition md5_block ::
  "string \<Rightarrow> 32 word \<times> 32 word \<times> 32 word \<times> 32 word
     \<Rightarrow> 32 word \<times> 32 word \<times> 32 word \<times> 32 word" where
  "md5_block block st =
     (case st of
        (a0, b0, c0, d0) \<Rightarrow>
          (case fold (md5_round (map le32 (chunks_of 4 block))) [0..<64] st of
             (a, b, c, d) \<Rightarrow> (a0 + a, b0 + b, c0 + c, d0 + d)))"

definition le_bytes :: "nat \<Rightarrow> int \<Rightarrow> string" where
  "le_bytes n v = map (\<lambda>k. char_of (v div 256 ^ k)) [0..<n]"

definition md5_pad :: "string \<Rightarrow> string" where
  "md5_pad msg =
     msg @ [CHR 0x80]
     @ replicate (nat ((55 - int (length msg)) mod 64)) (CHR 0x00)
     @ le_bytes 8 (8 * int (length msg))"

definition hex_lower :: "int \<Rightarrow> char" where
  "hex_lower n = (if n < 10 then char_of (48 + n) else char_of (87 + n))"

definition hex_of_word :: "32 word \<Rightarrow> string" where
  "hex_of_word x =
     concat (map (\<lambda>c. [hex_lower (of_char c div 16), hex_lower (of_char c mod 16)])
               (le_bytes 4 (uint x)))"

definition md5_hex :: "string \<Rightarrow> string" where
  "md5_hex msg =
     (case fold md5_block (chunks_of 64 (md5_pad msg))
             (0x67452301, 0xefcdab89, 0x98badcfe, 0x10325476) of
        (a, b, c, d) \<Rightarrow> hex_of_word a @ hex_of_word b @ hex_of_word c @ hex_of_word d)"

section \<open>A small site, for the examples\<close>

text \<open>
  The host \<^verbatim>\<open>a.test\<close> resolves to a public address and serves one page, which links a
  style sheet. The HTML parser finds that link, the HTML rewriter points it to the local
  file, and the CSS rewriter leaves the sheet as it is.
\<close>

definition examplePage :: string where
  "examplePage = ''<link rel=stylesheet href=https://a.test/s.css>''"

definition examplePageRewritten :: string where
  "examplePageRewritten = ''<link rel=stylesheet href=s.css>''"

definition exampleWorld :: world where
  "exampleWorld =
     \<lparr>net = (\<lambda>n u hs.
         if u = ''https://a.test/s.css''
         then Response \<lparr>r_status = 200, r_headers = [(''content-type'', ''text/css'')],
                        r_body = Some ''body{margin:0}''\<rparr>
         else Response \<lparr>r_status = 200,
                        r_headers = [(''content-type'', ''text/html; charset=utf-8'')],
                        r_body = Some examplePage\<rparr>),
      resolve4 = (\<lambda>h. Inr [''93.184.216.34'']),
      random = (\<lambda>n. 0),
      dateParse = (\<lambda>s. None),
      plainGet = (\<lambda>u. NetError ''ENOTFOUND''),
      files = \<lparr>mkdirError = (\<lambda>d. None), writeFileError = (\<lambda>p. None),
               readdirError = (\<lambda>d. None)\<rparr>\<rparr>"

definition exampleTools :: tools where
  "exampleTools =
     \<lparr>parseHtml = (\<lambda>html u. if html = examplePage then [(''https://a.test/s.css'', AssetLink)]
                             else []),
      parseCss = (\<lambda>css u. []),
      rewriteHtmlLinks = (\<lambda>html m page. if html = examplePage then examplePageRewritten else html),
      rewriteCssUrls = (\<lambda>css m root. css),
      robotsParser = (\<lambda>u txt ua x. True),
      md5 = md5_hex\<rparr>"

definition exampleEngine :: CrawlEngine where
  "exampleEngine =
     CrawlEngine_new node defaultConfig exampleWorld ''/srv/app'' 0 ''job1'' ''https://a.test/''
       (defaultOptions ''https://a.test/'')"

text \<open>
  An engine of a crawl whose own total-size option is the smallest the request schema
  admits (1024 bytes), under the default process configuration.
\<close>

definition smallCrawlEngine :: CrawlEngine where
  "smallCrawlEngine =
     CrawlEngine_new node defaultConfig exampleWorld ''/srv/app'' 0 ''job1'' ''https://a.test/''
       ((defaultOptions ''https://a.test/'')\<lparr>maxTotalSize := 1024\<rparr>)"

text \<open>The same world with a file system that refuses every new directory.\<close>

definition readOnlyWorld :: world where
  "readOnlyWorld =
     exampleWorld\<lparr>files :=
       \<lparr>mkdirError = (\<lambda>d. Some \<lparr>fs_message = ''EACCES: permission denied, mkdir'',
                                   fs_text = ''Error: EACCES: permission denied, mkdir''\<rparr>),
        writeFileError = (\<lambda>p. None), readdirError = (\<lambda>d. None)\<rparr>\<rparr>"

section \<open>A site that forbids\<close>





section \<open>A crowded registry\<close>

text \<open>
  The registry after the 10001 URLs \<^verbatim>\<open>http://a.test:1000/x\<close>, ...,
  \<^verbatim>\<open>http://a.test:11000/x\<close> have been registered in that order. They are distinct
  canonical URLs with one host name and one path, so each of them generates the local
  path \<^verbatim>\<open>a.test/x.html\<close>: the first takes it, and the \<open>k\<close>-th after it takes
  \<^verbatim>\<open>a.test/x_k.html\<close>.
\<close>

definition crowdedUrl :: "int \<Rightarrow> string" where
  "crowdedUrl k = ''http://a.test:'' @ show_int (1000 + k) @ ''/x''"

definition crowdedPath :: "int \<Rightarrow> string" where
  "crowdedPath k = (if k = 0 then ''a.test/x.html'' else numbered ''a.test/x'' ''.html'' k)"

definition crowdedRegistry :: LinkRewriter where
  "crowdedRegistry =
     \<lparr>urlToPath = map (\<lambda>k. (crowdedUrl k, crowdedPath k)) [0..10000],
      pathToUrl = map (\<lambda>k. (crowdedPath k, crowdedUrl k)) [0..10000],
      usedPaths = map crowdedPath [0..10000]\<rparr>"

section \<open>Properties of the frontier\<close>

lemma map_set_fresh: "map_of m k = None \<Longrightarrow> map_set k v m = m @ [(k, v)]"
  by (induction m) (auto split: if_splits)

text \<open>
  Claim C2. \<^verbatim>\<open>addAsset\<close> applies no scope predicate: a URL that canonicalises, is not
  yet in the frontier under its canonical key, is within the asset depth limit
  \<open>maxDepth + 5\<close> and the page limit (or the mode is unlimited) and whose file-type
  category is not disabled is admitted (the call returns true and a Pending entry is
  appended), whatever its host, the scope and the seed are.
\<close>

theorem addAsset_admits_any_host:
  assumes canon: "normalizeUrl pf u = Some n"
    and fresh: "\<not> map_has (queue q) n"
    and limits: "unlimitedMode (options q) \<or>
                 (d \<le> maxDepth (options q) + 5 \<and> int (length (queue q)) < maxPages (options q))"
    and types: "\<not> fileType_rejects pf (options q) n"
  shows "addAsset pf now q u parent d =
           (True, q\<lparr>queue := queue q @ [(n, newQueuedUrl u n d (Some parent) now)],
                    pendingUrls := pendingUrls q @ [n]\<rparr>)
         \<and> status (newQueuedUrl u n d (Some parent) now) = Pending"
proof -
  from fresh have "map_of (queue q) n = None"
    by (simp add: map_has_def)
  then have "enqueue q n (newQueuedUrl u n d (Some parent) now) =
      q\<lparr>queue := queue q @ [(n, newQueuedUrl u n d (Some parent) now)],
        pendingUrls := pendingUrls q @ [n]\<rparr>"
    by (simp add: enqueue_def map_set_fresh)
  moreover from limits have "\<not> (\<not> unlimitedMode (options q) \<and> d > maxDepth (options q) + 5)"
    and "\<not> (\<not> unlimitedMode (options q) \<and> int (length (queue q)) \<ge> maxPages (options q))"
    by auto
  ultimately show ?thesis
    using canon fresh types by (simp add: addAsset_def Let_def newQueuedUrl_def)
qed

text \<open>
  The scenario of the specification: with seed \<^verbatim>\<open>https://a.test/\<close> and scope same-host the
  image \<^verbatim>\<open>https://b.test/logo.png\<close> is admitted as an asset, while the page
  \<^verbatim>\<open>https://b.test/\<close> is rejected.
\<close>

theorem addAsset_admits_any_host_witness:
  "fst (addAsset node 1 sameHostQueue ''https://b.test/logo.png'' ''https://a.test/'' 0)
   \<and> map (\<lambda>(k, e). (k, status e))
         (queue (snd (addAsset node 1 sameHostQueue ''https://b.test/logo.png''
                        ''https://a.test/'' 0)))
       = [(''https://a.test/'', Pending), (''https://b.test/logo.png'', Pending)]
   \<and> add node 1 sameHostQueue ''https://b.test/'' ''https://a.test/'' 1
       = Inr (False, sameHostQueue)"
proof -
  have q: "sameHostQueue =
      \<lparr>queue = [(''https://a.test/'',
                  newQueuedUrl ''https://a.test/'' ''https://a.test/'' 0 None 0)],
       pendingUrls = [''https://a.test/''],
       options = (defaultOptions ''https://a.test/'')\<lparr>scope := SameHost\<rparr>,
       seedUrl = ''https://a.test/''\<rparr>"
    by code_simp
  have h1: "normalizeUrl node ''https://b.test/logo.png'' = Some ''https://b.test/logo.png''"
    by code_simp
  have h2: "\<not> map_has (queue sameHostQueue) ''https://b.test/logo.png''"
    by code_simp
  have h3: "unlimitedMode (options sameHostQueue) \<or>
      ((0::int) \<le> maxDepth (options sameHostQueue) + 5 \<and>
       int (length (queue sameHostQueue)) < maxPages (options sameHostQueue))"
    by code_simp
  have h4: "\<not> fileType_rejects node (options sameHostQueue) ''https://b.test/logo.png''"
    by code_simp
  have p: "add node 1 sameHostQueue ''https://b.test/'' ''https://a.test/'' 1
      = Inr (False, sameHostQueue)"
    by code_simp
  show ?thesis
    using addAsset_admits_any_host [OF h1 h2 h3 h4, of 1 "''https://a.test/''"] p
    by (simp add: q newQueuedUrl_def)
qed

lemma isInScope_parses:
  "isInScope pf n seed sc \<Longrightarrow> \<exists>parsed. urlParse pf n = Some parsed"
  by (auto simp: isInScope_def getDomain_def split: option.splits)

text \<open>
  Claim C4 as stated fails: with scope custom, seed \<^verbatim>\<open>https://a.test/\<close> and custom domains
  \<^verbatim>\<open>b.test\<close>, \<^verbatim>\<open>www.a.test\<close>, the page \<^verbatim>\<open>https://b.test/\<close> passes every other check and
  its host is an entry of the list, yet \<^verbatim>\<open>add\<close> rejects it: the scope test runs first, as
  same-domain against the seed.
\<close>

theorem add_custom_counterexample:
  "scope (options customQueue) = Custom
   \<and> customDomains (options customQueue) = Some [''b.test'', ''www.a.test'']
   \<and> normalizeUrl node ''https://b.test/'' = Some ''https://b.test/''
   \<and> \<not> map_has (queue customQueue) ''https://b.test/''
   \<and> (1::int) \<le> maxDepth (options customQueue)
   \<and> int (length (queue customQueue)) < maxPages (options customQueue)
   \<and> includePaths (options customQueue) = None
   \<and> excludePaths (options customQueue) = None
   \<and> fileTypes (options customQueue) = None
   \<and> hostnameOf node ''https://b.test/'' = ''b.test''
   \<and> add node 1 customQueue ''https://b.test/'' ''https://a.test/'' 1
       = Inr (False, customQueue)"
  by code_simp

text \<open>
  Claim C4, amended. With scope custom, a page URL that passes canonicalisation,
  deduplication, the depth and page limits, the include and exclude patterns and the
  file-type filter is admitted if and only if it is in the same registrable domain as the
  seed and, when a custom-domain list is configured, its host name is an entry of the list
  or a subdomain of one.
\<close>

theorem add_custom_scope:
  assumes custom: "scope (options q) = Custom"
    and canon: "normalizeUrl pf u = Some n"
    and fresh: "\<not> map_has (queue q) n"
    and limits: "unlimitedMode (options q) \<or>
                 (d \<le> maxDepth (options q) \<and> int (length (queue q)) < maxPages (options q))"
    and incl: "case includePaths (options q) of
                 None \<Rightarrow> True
               | Some ps \<Rightarrow> ps = [] \<or> list_ex (\<lambda>pattern. matchesPattern n pattern) ps"
    and excl: "case excludePaths (options q) of
                 None \<Rightarrow> True
               | Some ps \<Rightarrow> \<not> list_ex (\<lambda>pattern. matchesPattern n pattern) ps"
    and types: "\<not> fileType_rejects pf (options q) n"
  shows "add pf now q u parent d =
           Inr (if isInScope pf n (seedUrl q) SameDomain \<and>
                   (case customDomains (options q) of
                      None \<Rightarrow> True
                    | Some ds \<Rightarrow> customDomain_matches ds (hostnameOf pf n))
                then (True, q\<lparr>queue := queue q @ [(n, newQueuedUrl u n d (Some parent) now)],
                              pendingUrls := pendingUrls q @ [n]\<rparr>)
                else (False, q))"
proof -
  from fresh have "map_of (queue q) n = None"
    by (simp add: map_has_def)
  then have enq: "enqueue q n (newQueuedUrl u n d (Some parent) now) =
      q\<lparr>queue := queue q @ [(n, newQueuedUrl u n d (Some parent) now)],
        pendingUrls := pendingUrls q @ [n]\<rparr>"
    by (simp add: enqueue_def map_set_fresh)
  from limits have lim: "\<not> (\<not> unlimitedMode (options q) \<and> d > maxDepth (options q))"
    "\<not> (\<not> unlimitedMode (options q) \<and> int (length (queue q)) \<ge> maxPages (options q))"
    by auto
  have filt: "add_filters pf now q u parent d n =
      Inr (True, enqueue q n (newQueuedUrl u n d (Some parent) now))"
    using incl excl types
    by (auto simp: add_filters_def Let_def split: option.splits)
  show ?thesis
  proof (cases "isInScope pf n (seedUrl q) SameDomain")
    case False
    then show ?thesis
      using custom canon fresh lim by (simp add: add_def Let_def)
  next
    case True
    then obtain parsed where parsed: "urlParse pf n = Some parsed"
      using isInScope_parses by blast
    show ?thesis
      using custom canon fresh lim True parsed filt enq
      by (simp add: add_def Let_def hostnameOf_def split: option.splits)
  qed
qed

theorem add_custom_scope_witness:
  "add node 1 customQueue ''https://www.a.test/x'' ''https://a.test/'' 1 =
     Inr (True, customQueue\<lparr>queue := queue customQueue @
              [(''https://www.a.test/x'',
                newQueuedUrl ''https://www.a.test/x'' ''https://www.a.test/x'' 1
                  (Some ''https://a.test/'') 1)],
            pendingUrls := pendingUrls customQueue @ [''https://www.a.test/x'']\<rparr>)
   \<and> add node 1 customQueue ''https://b.test/'' ''https://a.test/'' 1 = Inr (False, customQueue)"
proof -
  have c: "scope (options customQueue) = Custom" by code_simp
  have l: "unlimitedMode (options customQueue) \<or>
      ((1::int) \<le> maxDepth (options customQueue) \<and>
       int (length (queue customQueue)) < maxPages (options customQueue))" by code_simp
  have i: "case includePaths (options customQueue) of
             None \<Rightarrow> True
           | Some ps \<Rightarrow> ps = [] \<or> list_ex (\<lambda>pattern. matchesPattern n pattern) ps" for n
    by code_simp
  have e: "case excludePaths (options customQueue) of
             None \<Rightarrow> True
           | Some ps \<Rightarrow> \<not> list_ex (\<lambda>pattern. matchesPattern n pattern) ps" for n
    by code_simp
  have t: "\<not> fileType_rejects node (options customQueue) n" for n
    by (simp add: fileType_rejects_def customQueue_def UrlQueue_new_def defaultOptions_def
        split: option.splits)
  have n1: "normalizeUrl node ''https://www.a.test/x'' = Some ''https://www.a.test/x''"
    by code_simp
  have f1: "\<not> map_has (queue customQueue) ''https://www.a.test/x''" by code_simp
  have s1: "isInScope node ''https://www.a.test/x'' (seedUrl customQueue) SameDomain \<and>
      (case customDomains (options customQueue) of
         None \<Rightarrow> True
       | Some ds \<Rightarrow> customDomain_matches ds (hostnameOf node ''https://www.a.test/x''))"
    by code_simp
  have n2: "normalizeUrl node ''https://b.test/'' = Some ''https://b.test/''"
    by code_simp
  have f2: "\<not> map_has (queue customQueue) ''https://b.test/''" by code_simp
  have s2: "\<not> isInScope node ''https://b.test/'' (seedUrl customQueue) SameDomain"
    by code_simp
  show ?thesis
    using add_custom_scope [OF c n1 f1 l i e t, of 1 "''https://a.test/''"]
      add_custom_scope [OF c n2 f2 l i e t, of 1 "''https://a.test/''"] s1 s2
    by simp
qed

section \<open>Properties of the SSRF guard\<close>

lemma octet_take_bit: "0 \<le> (x::int) \<Longrightarrow> x \<le> 255 \<Longrightarrow> take_bit 8 x = x"
  by (simp add: take_bit_int_eq_self)

lemma or_octets_take:
  fixes a b c d :: int
  shows "push_bit 24 (take_bit 8 a) OR push_bit 16 (take_bit 8 b)
           OR push_bit 8 (take_bit 8 c) OR take_bit 8 d
       = push_bit 24 (take_bit 8 a)
           + (push_bit 16 (take_bit 8 b) + (push_bit 8 (take_bit 8 c) + take_bit 8 d))"
proof -
  have 1: "push_bit 8 (take_bit 8 c) AND take_bit 8 d = 0"
    by (auto simp: bit_eq_iff bit_simps)
  have 2: "push_bit 16 (take_bit 8 b) AND (push_bit 8 (take_bit 8 c) OR take_bit 8 d) = 0"
    by (auto simp: bit_eq_iff bit_simps)
  have 3: "push_bit 24 (take_bit 8 a)
           AND (push_bit 16 (take_bit 8 b) OR (push_bit 8 (take_bit 8 c) OR take_bit 8 d)) = 0"
    by (auto simp: bit_eq_iff bit_simps)
  show ?thesis
    using disjunctive_add_eq_or [OF 1] disjunctive_add_eq_or [OF 2] disjunctive_add_eq_or [OF 3]
    by (simp add: or.assoc)
qed

lemma or_octets:
  fixes a b c d :: int
  assumes "0 \<le> a" "a \<le> 255" "0 \<le> b" "b \<le> 255" "0 \<le> c" "c \<le> 255" "0 \<le> d" "d \<le> 255"
  shows "uint (push_bit 24 (word_of_int a :: 32 word) OR push_bit 16 (word_of_int b)
               OR push_bit 8 (word_of_int c) OR word_of_int d)
         = a * 16777216 + b * 65536 + c * 256 + d"
proof -
  have w: "(push_bit 24 (word_of_int a :: 32 word) OR push_bit 16 (word_of_int b)
               OR push_bit 8 (word_of_int c) OR word_of_int d)
      = word_of_int (push_bit 24 a OR push_bit 16 b OR push_bit 8 c OR d)"
    by (simp add: of_int_or_eq of_int_push_bit)
  have s: "push_bit 24 a OR push_bit 16 b OR push_bit 8 c OR d
      = a * 16777216 + b * 65536 + c * 256 + d"
    using or_octets_take [of a b c d] assms
    by (simp add: octet_take_bit push_bit_eq_mult)
  have u: "0 \<le> k \<Longrightarrow> k < 2 ^ 32 \<Longrightarrow> uint (word_of_int k :: 32 word) = k" for k :: int
    by (simp add: uint_word_of_int_eq take_bit_int_eq_self)
  have r: "0 \<le> a * 16777216 + b * 65536 + c * 256 + d"
    "a * 16777216 + b * 65536 + c * 256 + d < 2 ^ 32"
    using assms by auto
  show ?thesis
    unfolding w s by (rule u [OF r])
qed

lemma digit_val_nonneg: "is_digit c \<Longrightarrow> 0 \<le> digit_val c"
proof -
  assume "is_digit c"
  then have "(48::nat) \<le> of_char c"
    by (simp add: is_digit_def less_eq_char_def)
  then have "(48::int) \<le> int (of_char c)"
    by linarith
  then show ?thesis
    by (simp add: digit_val_def of_nat_of_char)
qed

lemma foldl_digits_nonneg:
  "0 \<le> acc \<Longrightarrow> list_all is_digit s \<Longrightarrow> 0 \<le> foldl (\<lambda>acc c. 10 * acc + digit_val c) acc s"
proof (induction s arbitrary: acc)
  case Nil
  then show ?case by simp
next
  case (Cons c s)
  from Cons.prems have "0 \<le> 10 * acc + digit_val c"
    using digit_val_nonneg [of c] by simp
  with Cons show ?case by simp
qed

lemma read_int_nonneg: "list_all is_digit s \<Longrightarrow> 0 \<le> read_int s"
  by (simp add: read_int_def foldl_digits_nonneg)

lemma ipToNumber_octets:
  assumes "ipv4_octets s = Some (a, b, c, d)"
  shows "ipToNumber s = a * 16777216 + b * 65536 + c * 256 + d"
    and "0 \<le> a \<and> a \<le> 255 \<and> 0 \<le> b \<and> b \<le> 255 \<and> 0 \<le> c \<and> c \<le> 255 \<and> 0 \<le> d \<and> d \<le> 255"
    and "is_dotted_quad s"
proof -
  from assms obtain p0 p1 p2 p3 where
    parts: "split CHR ''.'' s = [p0, p1, p2, p3]"
    and ok: "list_all (\<lambda>p. 1 \<le> length p \<and> length p \<le> 3 \<and> list_all is_digit p \<and> read_int p \<le> 255)
               [p0, p1, p2, p3]"
    and vals: "a = read_int p0" "b = read_int p1" "c = read_int p2" "d = read_int p3"
    by (auto simp: ipv4_octets_def split: list.splits if_splits)
  from ok vals show bounds:
    "0 \<le> a \<and> a \<le> 255 \<and> 0 \<le> b \<and> b \<le> 255 \<and> 0 \<le> c \<and> c \<le> 255 \<and> 0 \<le> d \<and> d \<le> 255"
    by (simp add: read_int_nonneg)
  from ok have nums: "map number_of_part [p0, p1, p2, p3] = [Some a, Some b, Some c, Some d]"
    by (simp add: number_of_part_def vals)
  show "ipToNumber s = a * 16777216 + b * 65536 + c * 256 + d"
    using bounds or_octets [of a b c d]
    by (simp add: ipToNumber_def parts nums [simplified])
  from ok show "is_dotted_quad s"
    by (simp add: is_dotted_quad_def parts)
qed

lemma BLOCKED_IP_RANGES_values:
  "BLOCKED_IP_RANGES =
     [(2130706432, 2147483647), (167772160, 184549375), (2886729728, 2887778303),
      (3232235520, 3232301055), (2851995648, 2852061183), (4294967295, 4294967295),
      (0, 16777215)]"
  by code_simp

lemma spec_blocked_isPrivateIP:
  assumes "spec_blocked_address s"
  shows "isPrivateIP s" and "is_dotted_quad s"
proof -
  from assms obtain a b c d where oct: "ipv4_octets s = Some (a, b, c, d)"
    and blocked: "spec_blocked_ipv4 a b c d"
    by (auto simp: spec_blocked_address_def split: option.splits)
  note n = ipToNumber_octets [OF oct]
  from n(3) show "is_dotted_quad s" .
  have "list_ex (\<lambda>(start, end). ipToNumber s \<ge> start \<and> ipToNumber s \<le> end) BLOCKED_IP_RANGES"
    using blocked n(2) unfolding n(1) BLOCKED_IP_RANGES_values spec_blocked_ipv4_def
    by auto
  then show "isPrivateIP s"
    by (simp add: isPrivateIP_def Let_def)
qed

lemma first_private_finds:
  "list_ex isPrivateIP ips \<Longrightarrow> \<exists>ip. first_private ips = Some ip"
  by (induction ips) auto

lemma unsafe_result: "safe (unsafe msg) = False" "reason (unsafe msg) = Some msg"
  by (simp_all add: unsafe_def)

text \<open>
  Claim C3. \<^verbatim>\<open>validateUrlForSSRF\<close> never answers safe for a URL whose host name is a
  literal IPv4 address in a blocked range of the specification (loopback, the private
  ranges, link-local with the metadata address, current-network, broadcast), nor for a URL
  whose host name is resolved by DNS to a list of A records of which at least one lies in
  a blocked range: in both cases the result is unsafe and carries a reason. It holds for
  every parser, resolver and protocol allow-list.
\<close>

theorem validate_blocks_private_addresses:
  assumes parsed: "urlParse pf u = Some parsedUrl"
    and blocked: "spec_blocked_address (hostname parsedUrl) \<or>
       (\<not> is_dotted_quad (hostname parsedUrl) \<and>
        dnsResolve (hostname parsedUrl) = Inr addresses \<and>
        list_ex spec_blocked_address addresses)"
  shows "\<not> safe (validateUrlForSSRF pf dnsResolve u allowed) \<and>
         reason (validateUrlForSSRF pf dnsResolve u allowed) \<noteq> None"
  using blocked
proof
  assume lit: "spec_blocked_address (hostname parsedUrl)"
  show ?thesis
    using parsed spec_blocked_isPrivateIP [OF lit]
    by (simp add: validateUrlForSSRF_def Let_def unsafe_result)
next
  assume dns: "\<not> is_dotted_quad (hostname parsedUrl) \<and>
        dnsResolve (hostname parsedUrl) = Inr addresses \<and>
        list_ex spec_blocked_address addresses"
  then have "list_ex isPrivateIP addresses"
    by (auto simp: list_ex_iff dest: spec_blocked_isPrivateIP(1))
  then obtain ip where ip: "first_private addresses = Some ip"
    using first_private_finds by blast
  from dns have ne: "addresses \<noteq> []"
    by auto
  show ?thesis
    using parsed dns ip ne
    by (simp add: validateUrlForSSRF_def Let_def unsafe_result)
qed

theorem validate_blocks_private_addresses_witness:
  "\<not> safe (validateUrlForSSRF node (\<lambda>h. Inl ''ENOTFOUND'') ''http://127.0.0.1/'' [''http'', ''https''])
   \<and> \<not> safe (validateUrlForSSRF node (\<lambda>h. Inr [''93.184.216.34'', ''10.0.0.5''])
              ''http://internal.test/'' [''http'', ''https''])
   \<and> reason (validateUrlForSSRF node (\<lambda>h. Inr [''93.184.216.34'', ''10.0.0.5''])
              ''http://internal.test/'' [''http'', ''https'']) \<noteq> None"
proof -
  have p1: "urlParse node ''http://127.0.0.1/'' =
      Some \<lparr>scheme = ''http'', host = Some ''127.0.0.1'', port = None, path = ''/'',
            opaque = False, query = None, fragment = None\<rparr>"
    by code_simp
  have b1: "spec_blocked_address (hostname \<lparr>scheme = ''http'', host = Some ''127.0.0.1'',
      port = None, path = ''/'', opaque = False, query = None, fragment = None\<rparr>)"
    by code_simp
  have p2: "urlParse node ''http://internal.test/'' =
      Some \<lparr>scheme = ''http'', host = Some ''internal.test'', port = None, path = ''/'',
            opaque = False, query = None, fragment = None\<rparr>"
    by code_simp
  have b2: "\<not> is_dotted_quad (hostname \<lparr>scheme = ''http'', host = Some ''internal.test'',
      port = None, path = ''/'', opaque = False, query = None, fragment = None\<rparr>)"
    "list_ex spec_blocked_address [''93.184.216.34'', ''10.0.0.5'']"
    by code_simp+
  show ?thesis
    using validate_blocks_private_addresses [OF p1, of "\<lambda>h. Inl ''ENOTFOUND''" "[]"
        "[''http'', ''https'']"]
      validate_blocks_private_addresses [OF p2, of "\<lambda>h. Inr [''93.184.216.34'', ''10.0.0.5'']"
        "[''93.184.216.34'', ''10.0.0.5'']" "[''http'', ''https'']"]
      b1 b2
    by simp
qed

section \<open>Properties of the engine\<close>

lemma crawlLoop_idle:
  "\<not> hasPending (e_queue e) \<Longrightarrow> crawlLoop pf cfg w ts fuel e = Some e"
  by (cases fuel) simp_all

lemma listFiles_empty:
  "disk st = [] \<Longrightarrow> readdirError fs (baseDir st) = None \<Longrightarrow> listFiles fs st = Inr []"
  by (simp add: listFiles_def)

lemma rewriteAllLinks_empty:
  "disk (storage e) = [] \<Longrightarrow> readdirError (files w) (baseDir (storage e)) = None \<Longrightarrow>
     rewriteAllLinks pf cfg w ts e = Inr (log e LogInfo ''Rewriting links in downloaded files'')"
  by (simp add: rewriteAllLinks_def Let_def listFiles_empty log_def)

lemma UrlQueue_new_invalid:
  "normalizeUrl pf seed = None \<Longrightarrow>
     UrlQueue_new pf now seed opts = \<lparr>queue = [], pendingUrls = [], options = opts, seedUrl = seed\<rparr>"
  by (simp add: UrlQueue_new_def)

text \<open>
  Claim C10 as stated fails: \<^verbatim>\<open>start\<close> initialises the storage before it looks at the
  frontier, and when the job directory cannot be made the call throws, with the engine
  marked failed, whatever the seed. Here the seed does not canonicalise and the file
  system refuses the directory.
\<close>

theorem start_with_invalid_seed_counterexample:
  "normalizeUrl node ''not a url'' = None \<and>
   (case start node defaultConfig readOnlyWorld exampleTools 0
           (CrawlEngine_new node defaultConfig readOnlyWorld ''/srv/app'' 0 ''job1'' ''not a url''
              (defaultOptions ''not a url'')) of
      Threw msg e' \<Rightarrow>
        msg = ''Failed to create job directory: Error: EACCES: permission denied, mkdir''
        \<and> e_status e' = StatusFailed
    | _ \<Rightarrow> False)"
  by code_simp

text \<open>
  Claim C10, amended. If the seed URL fails to canonicalise, the queue constructor builds
  an empty frontier without raising; and if moreover the job directory can be made and
  listed, \<^verbatim>\<open>start\<close> returns at once, whatever the fuel: no request is sent (none by the
  fetcher, none for a robots file), nothing is stored, and the result has success = true,
  zero pages, zero assets and an empty error list. The platform is taken to resolve
  nothing against the URL of the options when robots rules are asked for (second premise:
  that URL is the seed, which does not parse).
\<close>

theorem start_with_invalid_seed:
  assumes seed: "normalizeUrl pf seed = None"
    and robots: "respectRobotsTxt opts \<longrightarrow> urlResolve pf ''/robots.txt'' (opt_url opts) = None"
    and mkdir: "mkdirError (files w) (baseDir (FileStorage_new cfg cwd jid)) = None"
    and readdir: "readdirError (files w) (baseDir (FileStorage_new cfg cwd jid)) = None"
  shows "queue (UrlQueue_new pf now seed opts) = [] \<and>
         pendingUrls (UrlQueue_new pf now seed opts) = [] \<and>
         (\<exists>r e'. start pf cfg w ts fuel (CrawlEngine_new pf cfg w cwd now jid seed opts) =
                   Returned (r, e') \<and>
                 success r \<and> pagesProcessed r = 0 \<and> assetsProcessed r = 0 \<and> errors r = [] \<and>
                 e_status e' = StatusComplete \<and>
                 count_requests (fetcher e') = 0 \<and> robotsRequests e' = [] \<and>
                 disk (storage e') = [])"
proof -
  define e0 where "e0 = CrawlEngine_new pf cfg w cwd now jid seed opts"
  have q: "e_queue e0 = \<lparr>queue = [], pendingUrls = [], options = opts, seedUrl = seed\<rparr>"
    by (simp add: e0_def CrawlEngine_new_def UrlQueue_new_invalid [OF seed])
  have f0: "count_requests (fetcher e0) = 0"
    by (simp add: e0_def CrawlEngine_new_def Fetcher_new_def count_requests_def Let_def
        getRandomUserAgent_def next_random_def split: option.splits)
  have s0: "storage e0 = FileStorage_new cfg cwd jid" "e_options e0 = opts"
    "e_errors e0 = []" "e_pagesProcessed e0 = 0" "e_assetsProcessed e0 = 0" "\<not> aborted e0"
    "robotsRequests e0 = []" "e_status e0 = StatusPending"
    by (simp_all add: e0_def CrawlEngine_new_def)
  have d0: "disk (FileStorage_new cfg cwd jid) = []"
    by (simp add: FileStorage_new_def)
  obtain e3 where prep: "start_setup pf cfg w ts e0 = Inr e3"
    and e3: "e_queue e3 = e_queue e0" "\<not> aborted e3" "e_errors e3 = []"
      "e_pagesProcessed e3 = 0" "e_assetsProcessed e3 = 0" "disk (storage e3) = []"
      "baseDir (storage e3) = baseDir (FileStorage_new cfg cwd jid)"
      "fetcher e3 = fetcher e0" "robotsRequests e3 = []"
    using robots mkdir s0 d0
    by (cases "respectRobotsTxt opts")
       (simp_all add: start_setup_def Let_def log_def storage_init_def fetchRobotsTxt_def)
  have idle: "\<not> hasPending (e_queue e3)"
    using q e3(1) by (simp add: hasPending_def hasInProgress_def)
  have loop: "crawlLoop pf cfg w ts fuel e3 = Some e3"
    by (rule crawlLoop_idle [OF idle])
  have pass: "rewriteAllLinks pf cfg w ts e3 = Inr (log e3 LogInfo ''Rewriting links in downloaded files'')"
    using e3(6) e3(7) readdir by (simp add: rewriteAllLinks_empty)
  obtain r e6 where fin: "start_finish pf cfg w ts e3 = Inr (r, e6)"
    and r: "success r" "pagesProcessed r = 0" "assetsProcessed r = 0" "errors r = []"
    and e6: "e_status e6 = StatusComplete" "count_requests (fetcher e6) = 0"
      "robotsRequests e6 = []" "disk (storage e6) = []"
    using e3 f0 by (simp add: start_finish_def pass Let_def log_def)
  have "start pf cfg w ts fuel e0 = Returned (r, e6)"
    using s0(8) prep loop fin by (simp add: start_def)
  with r e6 show ?thesis
    using UrlQueue_new_invalid [OF seed] unfolding e0_def by auto
qed

theorem start_with_invalid_seed_witness:
  "normalizeUrl node ''not a url'' = None \<and>
   (\<exists>r e'. start node defaultConfig exampleWorld exampleTools 0
              (CrawlEngine_new node defaultConfig exampleWorld ''/srv/app'' 0 ''job1'' ''not a url''
                 ((defaultOptions ''not a url'')\<lparr>respectRobotsTxt := True\<rparr>)) =
            Returned (r, e') \<and>
          success r \<and> pagesProcessed r = 0 \<and> assetsProcessed r = 0 \<and> errors r = [] \<and>
          e_status e' = StatusComplete \<and> count_requests (fetcher e') = 0 \<and>
          robotsRequests e' = [] \<and> disk (storage e') = [])"
proof -
  have h1: "normalizeUrl node ''not a url'' = None"
    by code_simp
  have h2: "respectRobotsTxt ((defaultOptions ''not a url'')\<lparr>respectRobotsTxt := True\<rparr>) \<longrightarrow>
      urlResolve node ''/robots.txt''
        (opt_url ((defaultOptions ''not a url'')\<lparr>respectRobotsTxt := True\<rparr>)) = None"
    by code_simp
  have h3: "mkdirError (files exampleWorld)
      (baseDir (FileStorage_new defaultConfig ''/srv/app'' ''job1'')) = None"
    by (simp add: exampleWorld_def)
  have h4: "readdirError (files exampleWorld)
      (baseDir (FileStorage_new defaultConfig ''/srv/app'' ''job1'')) = None"
    by (simp add: exampleWorld_def)
  show ?thesis
    using start_with_invalid_seed
      [where pf = node and seed = "''not a url''"
         and opts = "(defaultOptions ''not a url'')\<lparr>respectRobotsTxt := True\<rparr>"
         and cfg = defaultConfig and w = exampleWorld and ts = exampleTools
         and fuel = 0 and cwd = "''/srv/app''" and now = 0 and jid = "''job1''"] h1 h2 h3 h4
    by blast
qed

text \<open>
  Claim C1 fails on the code. The run of the example site completes with two stored files,
  the page and its style sheet, and a registry that maps the sheet's URL to its local
  path; the HTML rewriter would change the page; yet the page in storage after the rewrite
  pass is the page as fetched. The pass asks \<^verbatim>\<open>getExtensionFromUrl\<close> for the extension of
  the local path \<^verbatim>\<open>a.test/index.html\<close>, which is no URL: the extension is empty, the
  category is other, and the file is passed over.
\<close>

theorem rewrite_pass_leaves_stored_html:
  "(case start node defaultConfig exampleWorld exampleTools 5 exampleEngine of
      Returned (r, e') \<Rightarrow>
        e_status e' = StatusComplete \<and> success r \<and>
        listFiles (files exampleWorld) (storage e') = Inr [''a.test/index.html'', ''a.test/s.css''] \<and>
        map_of (getMappings (rewriter e')) ''https://a.test/s.css'' = Some ''a.test/s.css'' \<and>
        readFile (storage e') ''a.test/index.html'' = Inr examplePage \<and>
        rewriteHtmlLinks exampleTools examplePage (getMappings (rewriter e')) ''a.test/index.html''
          = examplePageRewritten \<and>
        examplePageRewritten \<noteq> examplePage \<and>
        getExtensionFromUrl node ''a.test/index.html'' = []
    | _ \<Rightarrow> False)"
  by code_simp

text \<open>
  Why the rewrite pass passes every stored file over: the reference parser, like the
  platform's, fails on a string with no scheme; every local path the registry generates
  is free of colons; so the extension the pass computes for a stored file is empty.
\<close>

lemma parse_scheme_needs_colon: "CHR '':'' \<notin> set s \<Longrightarrow> parse_scheme s = None"
proof -
  assume a: "CHR '':'' \<notin> set s"
  have "d \<noteq> CHR '':''" if "dropWhile is_scheme_char s = d # rest" for d rest
  proof -
    have "d \<in> set (dropWhile is_scheme_char s)"
      using that by simp
    then have "d \<in> set s"
      by (rule set_dropWhileD)
    with a show ?thesis by auto
  qed
  then show ?thesis
    by (auto simp: parse_scheme_def split: list.splits)
qed

lemma strip_input_subset: "set (strip_input s) \<subseteq> set s"
proof
  fix x
  assume "x \<in> set (strip_input s)"
  then have "x \<in> set (dropWhile is_c0_or_space (rev (dropWhile is_c0_or_space s)))"
    by (simp add: strip_input_def)
  then have "x \<in> set (rev (dropWhile is_c0_or_space s))"
    by (rule set_dropWhileD)
  then have "x \<in> set (dropWhile is_c0_or_space s)"
    by simp
  then show "x \<in> set s"
    by (rule set_dropWhileD)
qed

lemma parseURL_needs_scheme:
  assumes "CHR '':'' \<notin> set input"
  shows "parseURL input = None"
proof -
  from assms strip_input_subset [of input] have "CHR '':'' \<notin> set (strip_input input)"
    by auto
  then have "parse_scheme (strip_input input) = None"
    by (rule parse_scheme_needs_colon)
  then show ?thesis
    by (simp add: parseURL_def)
qed

lemma category_of_no_extension: "getMimeCategory [] = Other"
  by code_simp

lemma rewrite_file_skips_local_path:
  assumes "CHR '':'' \<notin> set fl"
  shows "rewrite_file node cfg w ts m e fl = e"
proof -
  have "getExtensionFromUrl node fl = []"
    by (simp add: getExtensionFromUrl_def node_def parseURL_needs_scheme [OF assms])
  then show ?thesis
    by (simp add: rewrite_file_def category_of_no_extension)
qed

lemma set_join: "set (join sep xs) \<subseteq> set sep \<union> \<Union> (set ` set xs)"
  by (induction sep xs rule: join.induct) auto

lemma sanitizeFilename_no_colon: "CHR '':'' \<notin> set (sanitizeFilename s)"
proof -
  define s3 where "s3 = map (\<lambda>c. if is_illegal c then CHR ''_'' else c)
      (rev (dropWhile is_space_or_dot (rev (dropWhile is_space_or_dot (replace_dotdot s)))))"
  have "is_illegal CHR '':''"
    by code_simp
  then have 3: "CHR '':'' \<notin> set s3"
    unfolding s3_def by (auto split: if_splits)
  have sl: "set (str_slice_from s3 i) \<subseteq> set s3" "set (str_slice s3 i j) \<subseteq> set s3" for i j
    by (auto simp: str_slice_from_def str_slice_def dest: in_set_dropD in_set_takeD)
  define s4 where "s4 = (if length s3 > 200
                then str_slice s3 0 (200 - int (length (str_slice_from s3 (lastIndexOf s3 CHR ''.''))))
                     @ str_slice_from s3 (lastIndexOf s3 CHR ''.'')
                else s3)"
  have "set s4 \<subseteq> set s3"
    unfolding s4_def using sl by auto
  with 3 have 4: "CHR '':'' \<notin> set s4"
    by auto
  have "sanitizeFilename s = (if s4 = [] then ''unnamed'' else s4)"
    unfolding sanitizeFilename_def Let_def s3_def [symmetric] s4_def [symmetric] ..
  with 4 show ?thesis
    by simp
qed

lemma sanitizePath_no_colon: "CHR '':'' \<notin> set (sanitizePath p)"
proof
  assume "CHR '':'' \<in> set (sanitizePath p)"
  then have "CHR '':'' \<in> set ''/'' \<union> \<Union> (set ` set (filter (\<lambda>part. part \<noteq> [] \<and> part \<noteq> ''.'' \<and> part \<noteq> ''..'')
                   (map sanitizeFilename (split_path p))))"
    unfolding sanitizePath_def using set_join by blast
  then obtain part where "part \<in> set (map sanitizeFilename (split_path p))" "CHR '':'' \<in> set part"
    by auto
  then show False
    using sanitizeFilename_no_colon by auto
qed

lemma generateLocalPath_no_colon:
  assumes "generateLocalPath pf h u = Inr p"
  shows "CHR '':'' \<notin> set p"
proof -
  from assms obtain x where "p = sanitizePath x"
    unfolding generateLocalPath_def Let_def
    by (cases "urlParse pf u") auto
  then show ?thesis
    by (simp add: sanitizePath_no_colon)
qed

section \<open>Canonical form of a URL\<close>

text \<open>
  Claim C9. \<^verbatim>\<open>normalizeUrl\<close> removes one trailing slash of the path, not all of them, so
  its result need not be a fixed point: \<^verbatim>\<open>http://a.test/b//\<close> is taken to
  \<^verbatim>\<open>http://a.test/b/\<close>, and that string is taken to \<^verbatim>\<open>http://a.test/b\<close>.
\<close>

theorem normalizeUrl_twice_differs:
  "normalizeUrl node ''http://a.test/b//'' = Some ''http://a.test/b/'' \<and>
   normalizeUrl node ''http://a.test/b/'' = Some ''http://a.test/b''"
  by code_simp


section \<open>The total-size ceiling of the storage\<close>

text \<open>
  Claim C6 fails on the code. The crawl is configured with \<^verbatim>\<open>maxTotalSize\<close> = 1024 bytes,
  its storage is empty, and the storage accepts a write of 2000 bytes: the file is on the
  disk and the running total is 2000. \<^verbatim>\<open>writeFile\<close> compares the total with
  \<^verbatim>\<open>config.maxTotalSizeBytes\<close> of the process and is given nothing of the options of the
  crawl.
\<close>

theorem storage_ignores_crawl_ceiling:
  "maxTotalSize (e_options smallCrawlEngine) = 1024 \<and>
   maxTotalSizeBytes defaultConfig = 5368709120 \<and>
   totalBytes (stats (storage smallCrawlEngine)) = 0 \<and>
   writeFile (files exampleWorld) defaultConfig (storage smallCrawlEngine) ''a.test/big.bin''
       (replicate 2000 CHR ''x'') =
     Inr ((storage smallCrawlEngine)
            \<lparr>createdDirs := [''/srv/app/jobs/job1/a.test''],
             disk := [(''/srv/app/jobs/job1/a.test/big.bin'', replicate 2000 CHR ''x'')],
             stats := \<lparr>filesWritten = 1, totalBytes = 2000, directories = 1\<rparr>\<rparr>)"
  by code_simp

section \<open>A forbidden request\<close>












section \<open>The path registry at its safety limit\<close>

lemma map_of_map_set:
  "map_of (map_set k v m) k' = (if k' = k then Some v else map_of m k')"
  by (induction m) auto

lemma unique_loop_exhausted:
  assumes "\<forall>c. k \<le> c \<and> c \<le> 10000 \<longrightarrow> numbered b e c \<in> set used" and "k \<le> 10000"
  shows "unique_loop used b e fb k = fb"
  using assms
proof (induction "nat (10000 - k)" arbitrary: k)
  case 0
  then have "k = 10000" by simp
  with 0 show ?case
    by (subst unique_loop.simps) simp
next
  case (Suc n)
  then have k: "k + 1 \<le> 10000" "n = nat (10000 - (k + 1))"
    by simp_all
  from Suc.prems have mem: "numbered b e k \<in> set used"
    by simp
  have "unique_loop used b e fb (k + 1) = fb"
    using Suc.hyps(1) [OF k(2)] Suc.prems(1) k(1) by simp
  with mem k(1) show ?case
    by (subst unique_loop.simps) simp
qed

lemma ensureUniquePath_fallback:
  assumes "all_names_taken r p"
  shows "ensureUniquePath dg now r p =
         path_base p @ ''_'' @ str_slice (dg (p @ show_int now)) 0 8 @ path_ext p"
proof -
  from assms have used: "p \<in> set (usedPaths r)"
    and all: "\<forall>c. 1 \<le> c \<and> c \<le> 10000 \<longrightarrow>
                numbered (path_base p) (path_ext p) c \<in> set (usedPaths r)"
    by (simp_all add: all_names_taken_def list_all_iff)
  have "unique_loop (usedPaths r) (path_base p) (path_ext p)
          (path_base p @ ''_'' @ str_slice (dg (p @ show_int now)) 0 8 @ path_ext p) 1
        = path_base p @ ''_'' @ str_slice (dg (p @ show_int now)) 0 8 @ path_ext p"
    using all by (intro unique_loop_exhausted) simp_all
  with used show ?thesis
    by (simp add: ensureUniquePath_def path_base_def path_ext_def Let_def)
qed

lemma all_names_taken_mono:
  "all_names_taken r p \<Longrightarrow> set (usedPaths r) \<subseteq> set (usedPaths r') \<Longrightarrow> all_names_taken r' p"
  by (auto simp: all_names_taken_def list_all_iff)

text \<open>
  Claim C7 fails on the code. When a generated path and all of its 10000 numbered names are
  in use, \<^verbatim>\<open>ensureUniquePath\<close> returns the name built from the hash of the path and the
  clock without looking it up. Two distinct canonical URLs that generate that path and are
  registered at the same clock value (as \<^verbatim>\<open>processUrl\<close> does with the two ends of a
  redirect) are then given the same local path, and the second registration takes the
  path over from the first in the path-to-URL map.
\<close>

theorem fallback_path_is_shared:
  assumes n1: "normalizeUrl pf u1 = Some n1" and n2: "normalizeUrl pf u2 = Some n2"
    and diff: "n1 \<noteq> n2"
    and new1: "map_of (urlToPath r) n1 = None" and new2: "map_of (urlToPath r) n2 = None"
    and g1: "generateLocalPath pf dg u1 = Inr p" and g2: "generateLocalPath pf dg u2 = Inr p"
    and full: "all_names_taken r p"
  shows "\<exists>q r1 r2.
           registerUrl pf dg now r u1 = Inr (q, r1) \<and>
           registerUrl pf dg now r1 u2 = Inr (q, r2) \<and>
           map_of (urlToPath r2) n1 = Some q \<and> map_of (urlToPath r2) n2 = Some q \<and>
           map_of (pathToUrl r1) q = Some n1 \<and> map_of (pathToUrl r2) q = Some n2"
proof -
  define q where "q = path_base p @ ''_'' @ str_slice (dg (p @ show_int now)) 0 8 @ path_ext p"
  define r1 where "r1 = \<lparr>urlToPath = map_set n1 q (urlToPath r),
                          pathToUrl = map_set q n1 (pathToUrl r),
                          usedPaths = set_add q (usedPaths r)\<rparr>"
  define r2 where "r2 = \<lparr>urlToPath = map_set n2 q (urlToPath r1),
                          pathToUrl = map_set q n2 (pathToUrl r1),
                          usedPaths = set_add q (usedPaths r1)\<rparr>"
  have first: "registerUrl pf dg now r u1 = Inr (q, r1)"
    using n1 new1 g1 ensureUniquePath_fallback [OF full, of dg now]
    by (simp add: registerUrl_def register_new_def Let_def q_def r1_def)
  have "set (usedPaths r) \<subseteq> set (usedPaths r1)"
    by (auto simp: r1_def set_add_def)
  with full have full1: "all_names_taken r1 p"
    by (rule all_names_taken_mono)
  have new2': "map_of (urlToPath r1) n2 = None"
    using new2 diff by (simp add: r1_def map_of_map_set)
  have second: "registerUrl pf dg now r1 u2 = Inr (q, r2)"
    using n2 new2' g2 ensureUniquePath_fallback [OF full1, of dg now]
    by (simp add: registerUrl_def register_new_def Let_def q_def r2_def)
  have "map_of (urlToPath r2) n1 = Some q" "map_of (urlToPath r2) n2 = Some q"
    "map_of (pathToUrl r1) q = Some n1" "map_of (pathToUrl r2) q = Some n2"
    using diff by (simp_all add: r2_def r1_def map_of_map_set)
  with first second show ?thesis
    by blast
qed

lemma crowded_new: "map_of (urlToPath crowdedRegistry) (CHR ''h'' # CHR ''t'' # CHR ''t'' # CHR ''p'' # CHR ''s'' # rest) = None"
proof -
  have "CHR ''h'' # CHR ''t'' # CHR ''t'' # CHR ''p'' # CHR ''s'' # rest \<notin> crowdedUrl ` set [0..10000]"
    by (auto simp: crowdedUrl_def)
  then show ?thesis
    by (simp add: crowdedRegistry_def map_of_eq_None_iff image_image)
qed

lemma crowded_full: "all_names_taken crowdedRegistry ''a.test/x.html''"
proof -
  have b: "path_base ''a.test/x.html'' = ''a.test/x''"
    by code_simp
  have e: "path_ext ''a.test/x.html'' = ''.html''"
    by code_simp
  have "crowdedPath 0 = ''a.test/x.html''"
    by (simp add: crowdedPath_def)
  then have p: "''a.test/x.html'' \<in> crowdedPath ` set [0..10000]"
    by (metis (no_types) atLeastAtMost_iff image_eqI set_upto zero_le_numeral order_refl)
  have n: "numbered ''a.test/x'' ''.html'' c \<in> crowdedPath ` set [0..10000]"
    if "1 \<le> c" "c \<le> 10000" for c
  proof -
    from that have "crowdedPath c = numbered ''a.test/x'' ''.html'' c" "c \<in> set [0..10000]"
      by (simp_all add: crowdedPath_def)
    then show ?thesis
      by (metis image_eqI)
  qed
  show ?thesis
    unfolding all_names_taken_def b e list_all_iff
    using p n by (simp add: crowdedRegistry_def)
qed

theorem fallback_path_is_shared_witness:
  "normalizeUrl node ''https://a.test/x'' = Some ''https://a.test/x'' \<and>
   normalizeUrl node ''https://a.test:8443/x'' = Some ''https://a.test:8443/x'' \<and>
   generateLocalPath node md5_hex ''https://a.test/x'' = Inr ''a.test/x.html'' \<and>
   generateLocalPath node md5_hex ''https://a.test:8443/x'' = Inr ''a.test/x.html'' \<and>
   (\<exists>q r1 r2.
      registerUrl node md5_hex 1700000000000 crowdedRegistry ''https://a.test/x'' = Inr (q, r1) \<and>
      registerUrl node md5_hex 1700000000000 r1 ''https://a.test:8443/x'' = Inr (q, r2) \<and>
      map_of (urlToPath r2) ''https://a.test/x'' = Some q \<and>
      map_of (urlToPath r2) ''https://a.test:8443/x'' = Some q \<and>
      map_of (pathToUrl r1) q = Some ''https://a.test/x'' \<and>
      map_of (pathToUrl r2) q = Some ''https://a.test:8443/x'')"
proof -
  have h1: "normalizeUrl node ''https://a.test/x'' = Some ''https://a.test/x''"
    by code_simp
  have h2: "normalizeUrl node ''https://a.test:8443/x'' = Some ''https://a.test:8443/x''"
    by code_simp
  have h3: "''https://a.test/x'' \<noteq> ''https://a.test:8443/x''"
    by simp
  have h4: "map_of (urlToPath crowdedRegistry) ''https://a.test/x'' = None"
    by (rule crowded_new)
  have h5: "map_of (urlToPath crowdedRegistry) ''https://a.test:8443/x'' = None"
    by (rule crowded_new)
  have h6: "generateLocalPath node md5_hex ''https://a.test/x'' = Inr ''a.test/x.html''"
    by code_simp
  have h7: "generateLocalPath node md5_hex ''https://a.test:8443/x'' = Inr ''a.test/x.html''"
    by code_simp
  from fallback_path_is_shared
    [where pf = node and dg = md5_hex and now = 1700000000000 and r = crowdedRegistry,
     OF h1 h2 h3 h4 h5 h6 h7 crowded_full] h1 h2 h6 h7
  show ?thesis
    by blast
qed

end
